theory Spec2Isabelle
  imports Main "HOL-Library.Multiset" "HOL-Library.Sublist"
begin

section \<open>The dependency checker of check-dependencies.js\<close>

text \<open>
  A shallow embedding of \<^verbatim>\<open>src/check-dependencies.js\<close>. JavaScript strings are
  \<^typ>\<open>string\<close>. A plain object is the list of its own properties in the order
  \<^verbatim>\<open>Object.keys\<close> reports them (insertion order; the keys of the program are package
  names and lock keys, none of which is an array index or \<^verbatim>\<open>__proto__\<close>). The
  outside world (the file system, the lockfile parser of \<^verbatim>\<open>@yarnpkg/lockfile\<close>, the HTTP
  client \<^verbatim>\<open>axios\<close>, \<^verbatim>\<open>semver.parse\<close>) is a parameter of every function that
  uses it. Writes to the console are not part of the model.
\<close>

subsection \<open>String methods\<close>

text \<open>\<^verbatim>\<open>s.startsWith(p)\<close>.\<close>

definition startsWith :: "string \<Rightarrow> string \<Rightarrow> bool" where
  "startsWith s p = (take (length p) s = p)"

text \<open>
  \<^verbatim>\<open>s.replace(pat, rep)\<close> with a string pattern: only the first occurrence of
  \<open>pat\<close>, wherever it is, is replaced. No replacement string of the program contains
  a dollar sign, so the replacement is inserted as it is.
\<close>

fun js_replace :: "string \<Rightarrow> string \<Rightarrow> string \<Rightarrow> string" where
  "js_replace [] pat rep = (if pat = [] then rep else [])"
| "js_replace (c # cs) pat rep =
     (if startsWith (c # cs) pat then rep @ drop (length pat) (c # cs)
      else c # js_replace cs pat rep)"

text \<open>\<^verbatim>\<open>s.includes(pat)\<close>: \<open>pat\<close> occurs somewhere in \<open>s\<close>.\<close>

fun str_includes :: "string \<Rightarrow> string \<Rightarrow> bool" where
  "str_includes [] pat = (pat = [])"
| "str_includes (c # cs) pat = (startsWith (c # cs) pat \<or> str_includes cs pat)"

text \<open>\<^verbatim>\<open>s.split(d)\<close> for a separator of one character.\<close>

fun js_split :: "char \<Rightarrow> string \<Rightarrow> string list" where
  "js_split d [] = [[]]"
| "js_split d (c # cs) =
     (if c = d then [] # js_split d cs
      else (case js_split d cs of
              [] \<Rightarrow> [[c]]
            | w # ws \<Rightarrow> (c # w) # ws))"

subsection \<open>Objects\<close>

type_synonym 'v obj = "(string \<times> 'v) list"

text \<open>\<^verbatim>\<open>o[k] = v\<close>: an existing property keeps its place, a new one goes last.\<close>

fun obj_set :: "'v obj \<Rightarrow> string \<Rightarrow> 'v \<Rightarrow> 'v obj" where
  "obj_set [] k v = [(k, v)]"
| "obj_set ((k', v') # ps) k v =
     (if k' = k then (k, v) # ps else (k', v') # obj_set ps k v)"

subsection \<open>Version normalizer\<close>

text \<open>\<^verbatim>\<open>version.replace(/^[\^~]/, '')\<close>.\<close>

fun normalizeVersion :: "string \<Rightarrow> string" where
  "normalizeVersion [] = []"
| "normalizeVersion (c # cs) =
     (if c = CHR ''^'' \<or> c = CHR ''~'' then cs else c # cs)"

text \<open>
  The two kinds of version string the normalizer is meant for: a bare one, with no
  leading caret or tilde, and a bare one behind a single caret or tilde.
\<close>

fun bare :: "string \<Rightarrow> bool" where
  "bare [] = True"
| "bare (c # cs) = (c \<noteq> CHR ''^'' \<and> c \<noteq> CHR ''~'')"

fun rangePrefixed :: "string \<Rightarrow> bool" where
  "rangePrefixed [] = False"
| "rangePrefixed (c # cs) = ((c = CHR ''^'' \<or> c = CHR ''~'') \<and> bare cs)"

subsection \<open>Lockfile resolver\<close>

text \<open>
  A lock entry; the program reads its \<^verbatim>\<open>version\<close> only. The parser gives every
  entry as an object, so an entry that is present passes the truth tests of lines 78
  and 83.
\<close>

record lock_entry =
  version :: string

text \<open>The lockfile on disk: absent, present but not readable, or present with a content.\<close>

datatype disk_file = Missing | Unreadable string | Content string

text \<open>
  \<^verbatim>\<open>const [lockedPkg, version] = key.split('@').filter(Boolean)\<close>: the first
  non-empty segment, \<^verbatim>\<open>undefined\<close> when there is none.
\<close>

definition lockedPkg :: "string \<Rightarrow> string option" where
  "lockedPkg key =
     (case filter (\<lambda>w. w \<noteq> []) (js_split (CHR ''@'') key) of
        [] \<Rightarrow> None
      | w # ws \<Rightarrow> Some w)"

text \<open>The inner \<^verbatim>\<open>forEach\<close> over the lock keys, for one declared name.\<close>

definition scanLock :: "lock_entry obj \<Rightarrow> string \<Rightarrow> string obj \<Rightarrow> string obj" where
  "scanLock lock p dependencies =
     fold (\<lambda>(key, entry) deps.
             if lockedPkg key = Some p then obj_set deps p (version entry) else deps)
          lock dependencies"

text \<open>The body of the outer \<^verbatim>\<open>forEach\<close>, for one declared name and its range.\<close>

definition resolveOne :: "lock_entry obj \<Rightarrow> string \<times> string \<Rightarrow> string obj \<Rightarrow> string obj" where
  "resolveOne lock d dependencies =
     (case d of (p, declaredRange) \<Rightarrow>
        (case map_of lock (p @ ''@'' @ declaredRange) of
           Some entry \<Rightarrow> obj_set dependencies p (version entry)
         | None \<Rightarrow> scanLock lock p dependencies))"

definition lockDependencies :: "lock_entry obj \<Rightarrow> string obj \<Rightarrow> string obj" where
  "lockDependencies lock packageJsonDependencies =
     fold (resolveOne lock) packageJsonDependencies []"

text \<open>
  The lock entries whose key names \<open>p\<close>, in iteration order, and the version of the
  last and of the first of them.
\<close>

definition nameMatches :: "lock_entry obj \<Rightarrow> string \<Rightarrow> lock_entry obj" where
  "nameMatches lock p = filter (\<lambda>e. lockedPkg (fst e) = Some p) lock"

definition lastMatch :: "lock_entry obj \<Rightarrow> string \<Rightarrow> string option" where
  "lastMatch lock p =
     (case rev (nameMatches lock p) of
        [] \<Rightarrow> None
      | e # es \<Rightarrow> Some (version (snd e)))"

definition firstMatch :: "lock_entry obj \<Rightarrow> string \<Rightarrow> string option" where
  "firstMatch lock p =
     (case nameMatches lock p of
        [] \<Rightarrow> None
      | e # es \<Rightarrow> Some (version (snd e)))"

text \<open>
  The version the resolver is to give a declared name: that of the entry under the exact
  compound key, and without such an entry that of the last entry whose key names it.
\<close>

definition lockedVersion :: "lock_entry obj \<Rightarrow> string \<Rightarrow> string \<Rightarrow> string option" where
  "lockedVersion lock p declaredRange =
     (case map_of lock (p @ ''@'' @ declaredRange) of
        Some entry \<Rightarrow> Some (version entry)
      | None \<Rightarrow> lastMatch lock p)"

text \<open>
  \<open>Inl\<close> is an exception that leaves the function (\<^verbatim>\<open>readFileSync\<close> failing),
  \<open>Inr None\<close> is \<^verbatim>\<open>null\<close>. The parser returns \<open>Inl\<close> when it throws.
\<close>

definition getPackagesFromYarnLock ::
  "disk_file \<Rightarrow> (string \<Rightarrow> string + lock_entry obj) \<Rightarrow> string obj \<Rightarrow> string + string obj option"
where
  "getPackagesFromYarnLock lockfile parse packageJsonDependencies =
     (case lockfile of
        Missing \<Rightarrow> Inr None
      | Unreadable e \<Rightarrow> Inl e
      | Content yarnLock \<Rightarrow>
          (case parse yarnLock of
             Inl e \<Rightarrow> Inr None
           | Inr parsedYarnLock \<Rightarrow>
               Inr (Some (lockDependencies parsedYarnLock packageJsonDependencies))))"

subsection \<open>Registry lookup\<close>

text \<open>
  What a request answers: a registry document (\<^verbatim>\<open>dist-tags.latest\<close>, a string;
  \<^verbatim>\<open>repository.url\<close> and \<^verbatim>\<open>homepage\<close>, which may be missing), a body with a
  \<^verbatim>\<open>length\<close> (the list of releases), or anything else, in particular a document
  without \<^verbatim>\<open>dist-tags\<close>, on which \<^verbatim>\<open>getPackageInfo\<close> throws inside its
  \<^verbatim>\<open>try\<close>. A request that fails is \<open>Inl\<close> with its message. The registry names a
  latest version in the \<^verbatim>\<open>dist-tags\<close> of every document that has them; a document
  with \<^verbatim>\<open>dist-tags\<close> but no \<^verbatim>\<open>latest\<close> is not part of the model.
\<close>

record registry_doc =
  dist_tags_latest :: string
  repository_url :: "string option"
  homepage :: "string option"

datatype response_data = PackageDoc registry_doc | ListData nat | OtherData

type_synonym axios = "string \<Rightarrow> string + response_data"

text \<open>The object \<^verbatim>\<open>getPackageInfo\<close> returns; \<open>registryLatest\<close> is its \<^verbatim>\<open>latestVersion\<close>.\<close>

record package_info =
  registryLatest :: string
  repositoryUrl :: "string option"
  homepageUrl :: "string option"

definition getPackageInfo :: "axios \<Rightarrow> string \<Rightarrow> package_info option" where
  "getPackageInfo ax p =
     (case ax (''https://registry.npmjs.org/'' @ p) of
        Inl e \<Rightarrow> None
      | Inr (PackageDoc d) \<Rightarrow>
          Some \<lparr>registryLatest = dist_tags_latest d,
                repositoryUrl = repository_url d,
                homepageUrl = homepage d\<rparr>
      | Inr (ListData n) \<Rightarrow> None
      | Inr OtherData \<Rightarrow> None)"

subsection \<open>Release reference\<close>

definition convertSshUrlToHttps :: "string \<Rightarrow> string" where
  "convertSshUrlToHttps sshUrl =
     (if startsWith sshUrl ''ssh://git@github.com/''
        then js_replace sshUrl ''ssh://git@github.com/'' ''https://github.com/''
      else if startsWith sshUrl ''git@github.com:''
        then js_replace sshUrl ''git@github.com:'' ''https://github.com/''
      else if startsWith sshUrl ''git://github.com/''
        then js_replace sshUrl ''git://github.com/'' ''https://github.com/''
      else sshUrl)"

text \<open>
  Line 116: the normalization of a repository URL, and \<^verbatim>\<open>repoUrl\<close>, which is
  empty when the registry gives no repository URL or an empty one.
\<close>

definition normalizeRepoUrl :: "string \<Rightarrow> string" where
  "normalizeRepoUrl url =
     convertSshUrlToHttps (js_replace (js_replace url ''git+'' []) ''.git'' [])"

definition repoUrlOf :: "package_info \<Rightarrow> string" where
  "repoUrlOf pkgInfo =
     (case repositoryUrl pkgInfo of
        None \<Rightarrow> []
      | Some u \<Rightarrow> if u = [] then [] else normalizeRepoUrl u)"

text \<open>
  \<^verbatim>\<open>checkReleases\<close>: the address it asks, and its answer. It catches whatever its
  body throws, so it always returns (\<open>Inr\<close>); the caller still has a handler for the
  other case.
\<close>

definition releasesRequest :: "string \<Rightarrow> string" where
  "releasesRequest repoUrl =
     (let httpsUrl = convertSshUrlToHttps repoUrl;
          apiUrl = js_replace httpsUrl ''https://github.com/'' ''https://api.github.com/repos/''
      in apiUrl @ ''/releases'')"

definition checkReleases :: "axios \<Rightarrow> string \<Rightarrow> string + bool" where
  "checkReleases ax repoUrl =
     (case ax (releasesRequest repoUrl) of
        Inl e \<Rightarrow> Inr False
      | Inr (ListData n) \<Rightarrow> Inr (0 < n)
      | Inr (PackageDoc d) \<Rightarrow> Inr False
      | Inr OtherData \<Rightarrow> Inr False)"

definition npmVersionsUrl :: "string \<Rightarrow> string" where
  "npmVersionsUrl p = ''https://www.npmjs.com/package/'' @ p @ ''?activeTab=versions''"

text \<open>Lines 115 to 133 of \<^verbatim>\<open>getDependencyUpdates\<close>: the documentation URL of a record.\<close>

definition resolveDocUrl :: "axios \<Rightarrow> string \<Rightarrow> package_info \<Rightarrow> string" where
  "resolveDocUrl ax p pkgInfo =
     (let repoUrl = repoUrlOf pkgInfo
      in if repoUrl \<noteq> [] then
           (case checkReleases ax repoUrl of
              Inr hasReleases \<Rightarrow>
                if hasReleases then repoUrl @ ''/releases'' else npmVersionsUrl p
            | Inl e \<Rightarrow> npmVersionsUrl p)
         else (case homepageUrl pkgInfo of
                 None \<Rightarrow> npmVersionsUrl p
               | Some h \<Rightarrow> if h = [] then npmVersionsUrl p else h))"

subsection \<open>Update detector\<close>

record update =
  pkg :: string
  currentVersion :: string
  latestVersion :: string
  docUrl :: string

text \<open>The callback mapped over \<^verbatim>\<open>Object.entries(dependencies)\<close>; \<open>None\<close> is \<^verbatim>\<open>undefined\<close>.\<close>

definition dependencyUpdate :: "axios \<Rightarrow> string \<times> string \<Rightarrow> update option" where
  "dependencyUpdate ax d =
     (case d of (p, current) \<Rightarrow>
        (let normalizedCurrentVersion = normalizeVersion current
         in case getPackageInfo ax p of
              None \<Rightarrow> None
            | Some pkgInfo \<Rightarrow>
                if registryLatest pkgInfo \<noteq> normalizedCurrentVersion
                then Some \<lparr>pkg = p,
                           currentVersion = normalizedCurrentVersion,
                           latestVersion = registryLatest pkgInfo,
                           docUrl = resolveDocUrl ax p pkgInfo\<rparr>
                else None))"

text \<open>\<^verbatim>\<open>Promise.all\<close> keeps the order of the entries; the filter drops \<^verbatim>\<open>undefined\<close>.\<close>

definition getDependencyUpdates :: "axios \<Rightarrow> string obj \<Rightarrow> update list" where
  "getDependencyUpdates ax dependencies = List.map_filter (dependencyUpdate ax) dependencies"

text \<open>Whether the detector reports a dependency: the test of line 114.\<close>

definition outdated :: "axios \<Rightarrow> string \<times> string \<Rightarrow> bool" where
  "outdated ax d =
     (case getPackageInfo ax (fst d) of
        None \<Rightarrow> False
      | Some pkgInfo \<Rightarrow> registryLatest pkgInfo \<noteq> normalizeVersion (snd d))"

subsection \<open>Ranking and partitioning\<close>

text \<open>
  JavaScript numbers are IEEE 754 doubles. Every number the ranking computes is an
  integer: a component of a version, a difference, a product or a sum of such. An
  integer of at most 53 bits is a double; a longer one is rounded to 53 significant
  bits, to the nearest and on a tie to the even one. The numbers of the program stay far
  below the largest double, so overflow is not part of the model.
\<close>

function bitLength :: "int \<Rightarrow> nat" where
  "bitLength n = (if n \<le> 0 then 0 else Suc (bitLength (n div 2)))"
  by pat_completeness auto
termination
  by (relation "measure nat") auto

declare bitLength.simps [simp del]

definition toDouble :: "int \<Rightarrow> int" where
  "toDouble x =
     (let a = \<bar>x\<bar>; k = bitLength a
      in if k \<le> 53 then x
         else (let q = 2 ^ (k - 53); lo = a div q; r = a mod q;
                   m = (if q < 2 * r \<or> (2 * r = q \<and> odd lo) then lo + 1 else lo)
               in sgn x * (m * q)))"

text \<open>
  What \<^verbatim>\<open>semver.parse\<close> returns for a version it accepts. The components are
  doubles that hold integers from 0 to \<open>2 ^ 53 - 1\<close>; the library rejects a version
  with a larger component.
\<close>

record semver =
  major :: int
  minor :: int
  patch :: int

text \<open>Each subtraction, product and sum of lines 183 to 187 is one rounded operation.\<close>

definition calculateVersionDifference ::
  "(string \<Rightarrow> semver option) \<Rightarrow> string \<Rightarrow> string \<Rightarrow> int"
where
  "calculateVersionDifference parseVersion currentVersion' latestVersion' =
     (case parseVersion currentVersion' of
        None \<Rightarrow> 0
      | Some current \<Rightarrow>
          (case parseVersion latestVersion' of
             None \<Rightarrow> 0
           | Some latest \<Rightarrow>
               (let majorDiff = toDouble (major latest - major current);
                    minorDiff = toDouble (minor latest - minor current);
                    patchDiff = toDouble (patch latest - patch current)
                in toDouble (toDouble (toDouble (majorDiff * 10000) + toDouble (minorDiff * 100))
                             + patchDiff))))"

text \<open>The version-distance of a record.\<close>

definition distance :: "(string \<Rightarrow> semver option) \<Rightarrow> update \<Rightarrow> int" where
  "distance parseVersion u =
     calculateVersionDifference parseVersion (currentVersion u) (latestVersion u)"

text \<open>
  \<^verbatim>\<open>Array.prototype.sort\<close> with a comparator. The language requires a stable sort
  (ECMAScript 2019; the README asks for Node 12 or higher), and with a comparator that
  orders by a numeric key the result is the one stable arrangement, which insertion
  from the right computes: an element goes before the first element it does not follow.
\<close>

fun insertBy :: "('a \<Rightarrow> 'a \<Rightarrow> int) \<Rightarrow> 'a \<Rightarrow> 'a list \<Rightarrow> 'a list" where
  "insertBy cmp x [] = [x]"
| "insertBy cmp x (y # ys) = (if cmp x y \<le> 0 then x # y # ys else y # insertBy cmp x ys)"

fun array_sort :: "('a \<Rightarrow> 'a \<Rightarrow> int) \<Rightarrow> 'a list \<Rightarrow> 'a list" where
  "array_sort cmp [] = []"
| "array_sort cmp (x # xs) = insertBy cmp x (array_sort cmp xs)"

definition sortUpdates :: "(string \<Rightarrow> semver option) \<Rightarrow> update list \<Rightarrow> update list" where
  "sortUpdates parseVersion updates =
     array_sort
       (\<lambda>a b. let diffA = calculateVersionDifference parseVersion (currentVersion a) (latestVersion a);
                  diffB = calculateVersionDifference parseVersion (currentVersion b) (latestVersion b)
              in toDouble (diffB - diffA))
       updates"

text \<open>The two filters of \<^verbatim>\<open>main\<close>; \<^verbatim>\<open>priorityPackages\<close> is an array of names.\<close>

definition prioritizedUpdates :: "string list \<Rightarrow> update list \<Rightarrow> update list" where
  "prioritizedUpdates priorityPackages sortedUpdates =
     filter (\<lambda>u. pkg u \<in> set priorityPackages) sortedUpdates"

definition otherUpdates :: "string list \<Rightarrow> update list \<Rightarrow> update list" where
  "otherUpdates priorityPackages sortedUpdates =
     filter (\<lambda>u. pkg u \<notin> set priorityPackages) sortedUpdates"

text \<open>
  \<^verbatim>\<open>main\<close> from line 231 on, with the priority packages and the merged
  dependencies of the manifest already loaded. The result is the pair of lists the
  program prints (as JSON or as two tables); \<open>Inl\<close> is an exception that ends the run.
\<close>

definition main ::
  "string list \<Rightarrow> string obj \<Rightarrow> disk_file \<Rightarrow> (string \<Rightarrow> string + lock_entry obj) \<Rightarrow> axios \<Rightarrow>
   (string \<Rightarrow> semver option) \<Rightarrow> string + (update list \<times> update list)"
where
  "main priorityPackages packageJsonDependencies lockfile parse ax parseVersion =
     (case getPackagesFromYarnLock lockfile parse packageJsonDependencies of
        Inl e \<Rightarrow> Inl e
      | Inr yarnLockDependencies \<Rightarrow>
          (let updatesFromYarnLock =
                 (case yarnLockDependencies of
                    Some deps \<Rightarrow> getDependencyUpdates ax deps
                  | None \<Rightarrow> []);
               updatesFromPackageJson =
                 (case yarnLockDependencies of
                    Some deps \<Rightarrow> []
                  | None \<Rightarrow> getDependencyUpdates ax packageJsonDependencies);
               sortedUpdatesFromPackageJson = sortUpdates parseVersion updatesFromPackageJson;
               sortedUpdatesFromYarnLock = sortUpdates parseVersion updatesFromYarnLock
           in Inr (case yarnLockDependencies of
                     Some deps \<Rightarrow>
                       (prioritizedUpdates priorityPackages sortedUpdatesFromYarnLock,
                        otherUpdates priorityPackages sortedUpdatesFromYarnLock)
                   | None \<Rightarrow>
                       (prioritizedUpdates priorityPackages sortedUpdatesFromPackageJson,
                        otherUpdates priorityPackages sortedUpdatesFromPackageJson))))"

subsection \<open>A sample environment\<close>

text \<open>
  A registry and a release host for the examples: \<^verbatim>\<open>gadget\<close> has releases,
  \<^verbatim>\<open>widget\<close> has a repository without releases and a homepage, \<^verbatim>\<open>left-pad\<close> has a
  homepage only, \<^verbatim>\<open>plain\<close> has neither, \<^verbatim>\<open>odd\<close> has a homepage and the
  repository URL \<^verbatim>\<open>.git\<close>, \<^verbatim>\<open>tool\<close> is up to date at \<^verbatim>\<open>1.0.0\<close>, the
  document of \<^verbatim>\<open>broken\<close> has no \<^verbatim>\<open>dist-tags\<close>; every other request fails.
\<close>

definition sampleAxios :: axios where
  "sampleAxios url =
     (if url = ''https://registry.npmjs.org/gadget''
        then Inr (PackageDoc \<lparr>dist_tags_latest = ''3.0.0'',
                               repository_url = Some ''git+https://github.com/acme/gadget.git'',
                               homepage = Some ''https://gadget.example''\<rparr>)
      else if url = ''https://api.github.com/repos/acme/gadget/releases''
        then Inr (ListData 4)
      else if url = ''https://registry.npmjs.org/widget''
        then Inr (PackageDoc \<lparr>dist_tags_latest = ''2.0.0'',
                               repository_url = Some ''git+ssh://git@github.com/acme/widget.git'',
                               homepage = Some ''https://widget.example''\<rparr>)
      else if url = ''https://api.github.com/repos/acme/widget/releases''
        then Inr (ListData 0)
      else if url = ''https://registry.npmjs.org/left-pad''
        then Inr (PackageDoc \<lparr>dist_tags_latest = ''1.3.0'',
                               repository_url = None,
                               homepage = Some ''https://left-pad.example''\<rparr>)
      else if url = ''https://registry.npmjs.org/plain''
        then Inr (PackageDoc \<lparr>dist_tags_latest = ''1.0.5'',
                               repository_url = None,
                               homepage = None\<rparr>)
      else if url = ''https://registry.npmjs.org/odd''
        then Inr (PackageDoc \<lparr>dist_tags_latest = ''1.1.0'',
                               repository_url = Some ''.git'',
                               homepage = Some ''https://odd.example''\<rparr>)
      else if url = ''https://registry.npmjs.org/broken''
        then Inr OtherData
      else if url = ''https://registry.npmjs.org/tool''
        then Inr (PackageDoc \<lparr>dist_tags_latest = ''1.0.0'',
                               repository_url = None,
                               homepage = None\<rparr>)
      else Inl ''Request failed with status code 404'')"

text \<open>What \<^verbatim>\<open>semver.parse\<close> answers on the versions of the examples.\<close>

definition sampleVersions :: "string \<Rightarrow> semver option" where
  "sampleVersions =
     map_of [(''0.0.0'', \<lparr>major = 0, minor = 0, patch = 0\<rparr>),
             (''1.0.0'', \<lparr>major = 1, minor = 0, patch = 0\<rparr>),
             (''1.0.5'', \<lparr>major = 1, minor = 0, patch = 5\<rparr>),
             (''1.1.0'', \<lparr>major = 1, minor = 1, patch = 0\<rparr>),
             (''1.2.0'', \<lparr>major = 1, minor = 2, patch = 0\<rparr>),
             (''1.3.0'', \<lparr>major = 1, minor = 3, patch = 0\<rparr>),
             (''2.0.0'', \<lparr>major = 2, minor = 0, patch = 0\<rparr>),
             (''2.0.5'', \<lparr>major = 2, minor = 0, patch = 5\<rparr>),
             (''3.0.0'', \<lparr>major = 3, minor = 0, patch = 0\<rparr>),
             (''9007199254740991.0.0'', \<lparr>major = 9007199254740991, minor = 0, patch = 0\<rparr>),
             (''9007199254740991.0.1'', \<lparr>major = 9007199254740991, minor = 0, patch = 1\<rparr>)]"

text \<open>A lock with two entries for one name, under ranges the manifest does not declare.\<close>

definition sampleLock :: "lock_entry obj" where
  "sampleLock =
     [(''widget@^1.0.0'', \<lparr>version = ''1.2.5''\<rparr>),
      (''@babel/core@^7.0.0'', \<lparr>version = ''7.24.0''\<rparr>),
      (''widget@^2.0.0'', \<lparr>version = ''2.0.1''\<rparr>)]"

text \<open>
  A lockfile parser for the examples: it accepts the file that holds the header comment
  only, an empty lock, and rejects every other content.
\<close>

definition sampleParse :: "string \<Rightarrow> string + lock_entry obj" where
  "sampleParse yarnLock =
     (if yarnLock = ''# yarn lockfile v1'' then Inr [] else Inl ''Unknown token'')"

section \<open>Properties\<close>

subsection \<open>Version normalizer\<close>

text \<open>
  C8. Normalizing twice is normalizing once, for every version string that is bare or
  is a bare one behind a single caret or tilde; the normalizer removes one leading caret
  or tilde and returns every string that does not begin with one as it is.
\<close>

theorem normalizeVersion_idempotent:
  "(bare v \<or> rangePrefixed v \<longrightarrow> normalizeVersion (normalizeVersion v) = normalizeVersion v)
   \<and> (c = CHR ''^'' \<or> c = CHR ''~'' \<longrightarrow> normalizeVersion (c # r) = r)
   \<and> (bare v \<longrightarrow> normalizeVersion v = v)"
  by (cases v; cases "tl v") auto

theorem normalizeVersion_idempotent_witness:
  "rangePrefixed ''^1.2.0''
   \<and> normalizeVersion (normalizeVersion ''^1.2.0'') = normalizeVersion ''^1.2.0''
   \<and> normalizeVersion ''^1.2.0'' = ''1.2.0''
   \<and> bare ''>=1.2.0'' \<and> normalizeVersion ''>=1.2.0'' = ''>=1.2.0''"
  using normalizeVersion_idempotent [of "''^1.2.0''" "CHR ''^''" "''1.2.0''"]
        normalizeVersion_idempotent [of "''>=1.2.0''" "CHR ''~''" "[]"]
  by simp

subsection \<open>Release reference: the repository URL\<close>

lemma startsWith_append: "startsWith (p @ r) p"
  by (simp add: startsWith_def)

lemma js_replace_prefix: "p \<noteq> [] \<Longrightarrow> js_replace (p @ r) p rep = rep @ r"
  by (cases p) (simp_all add: startsWith_def)

lemma js_replace_absent: "\<not> str_includes s pat \<Longrightarrow> js_replace s pat rep = s"
  by (induction s) auto

lemma startsWith_butlast:
  assumes "pat \<noteq> []" and "startsWith ((c # bs) @ pat) pat"
  shows "startsWith ((c # bs) @ butlast pat) pat"
proof -
  have "(c # bs) @ pat = ((c # bs) @ butlast pat) @ [last pat]"
    using assms(1) by simp
  moreover have "length pat \<le> length ((c # bs) @ butlast pat)"
    using assms(1) by (cases pat) simp_all
  ultimately have "take (length pat) ((c # bs) @ pat) = take (length pat) ((c # bs) @ butlast pat)"
    by (metis append.right_neutral diff_is_0_eq take_0 take_append)
  then show ?thesis
    using assms(2) by (simp add: startsWith_def)
qed

lemma js_replace_suffix:
  "pat \<noteq> [] \<Longrightarrow> \<not> str_includes (b @ butlast pat) pat \<Longrightarrow> js_replace (b @ pat) pat rep = b @ rep"
proof (induction b)
  case Nil
  then show ?case using js_replace_prefix [of pat "[]" rep] by simp
next
  case (Cons c bs)
  from Cons.prems have no: "\<not> startsWith ((c # bs) @ butlast pat) pat"
    and rest: "\<not> str_includes (bs @ butlast pat) pat"
    by simp_all
  from no Cons.prems(1) have "\<not> startsWith ((c # bs) @ pat) pat"
    using startsWith_butlast by blast
  then show ?case
    using Cons.IH [OF Cons.prems(1) rest] by simp
qed

lemma convert_ssh: "convertSshUrlToHttps (''ssh://git@github.com/'' @ r) = ''https://github.com/'' @ r"
  by (simp add: convertSshUrlToHttps_def startsWith_def)

lemma convert_scp: "convertSshUrlToHttps (''git@github.com:'' @ r) = ''https://github.com/'' @ r"
  by (simp add: convertSshUrlToHttps_def startsWith_def)

lemma convert_git: "convertSshUrlToHttps (''git://github.com/'' @ r) = ''https://github.com/'' @ r"
  by (simp add: convertSshUrlToHttps_def startsWith_def)

lemma convert_other:
  "\<not> startsWith u ''ssh://git@github.com/'' \<Longrightarrow> \<not> startsWith u ''git@github.com:'' \<Longrightarrow>
   \<not> startsWith u ''git://github.com/'' \<Longrightarrow> convertSshUrlToHttps u = u"
  by (simp add: convertSshUrlToHttps_def)

lemma strip_git_plus: "js_replace (''git+'' @ b) ''git+'' [] = b"
  using js_replace_prefix [of "''git+''" b "[]"] by simp

lemma strip_dot_git:
  "\<not> str_includes (b @ ''.gi'') ''.git'' \<Longrightarrow> js_replace (b @ ''.git'') ''.git'' [] = b"
  using js_replace_suffix [of "''.git''" b "[]"] by simp

text \<open>
  C7. For a repository URL whose leading \<^verbatim>\<open>git+\<close> marker, if it has one, is
  followed by a string whose first \<^verbatim>\<open>.git\<close>, if any, is its suffix (and likewise
  for a URL with no \<^verbatim>\<open>git+\<close> at all), normalization strips the marker and the
  suffix. It then rewrites the three transport forms for the host \<^verbatim>\<open>github.com\<close>
  only, to \<^verbatim>\<open>https://github.com/...\<close>; a URL that starts with none of the three
  GitHub prefixes, whatever its host, is returned as it is.
\<close>

theorem normalizeRepoUrl_github:
  "(\<not> str_includes (b @ ''.gi'') ''.git'' \<longrightarrow>
      normalizeRepoUrl (''git+'' @ b @ ''.git'') = convertSshUrlToHttps b)
   \<and> (\<not> str_includes b ''.git'' \<longrightarrow>
      normalizeRepoUrl (''git+'' @ b) = convertSshUrlToHttps b)
   \<and> (\<not> str_includes (b @ ''.git'') ''git+'' \<and> \<not> str_includes (b @ ''.gi'') ''.git'' \<longrightarrow>
      normalizeRepoUrl (b @ ''.git'') = convertSshUrlToHttps b)
   \<and> (\<not> str_includes b ''git+'' \<and> \<not> str_includes b ''.git'' \<longrightarrow>
      normalizeRepoUrl b = convertSshUrlToHttps b)
   \<and> convertSshUrlToHttps (''ssh://git@github.com/'' @ r) = ''https://github.com/'' @ r
   \<and> convertSshUrlToHttps (''git@github.com:'' @ r) = ''https://github.com/'' @ r
   \<and> convertSshUrlToHttps (''git://github.com/'' @ r) = ''https://github.com/'' @ r
   \<and> (\<not> startsWith u ''ssh://git@github.com/'' \<and> \<not> startsWith u ''git@github.com:''
        \<and> \<not> startsWith u ''git://github.com/'' \<longrightarrow> convertSshUrlToHttps u = u)"
proof -
  have a: "normalizeRepoUrl (''git+'' @ b @ ''.git'') = convertSshUrlToHttps b"
    if h: "\<not> str_includes (b @ ''.gi'') ''.git''"
  proof -
    have 1: "js_replace (''git+'' @ b @ ''.git'') ''git+'' [] = b @ ''.git''"
      by (rule strip_git_plus)
    have 2: "js_replace (b @ ''.git'') ''.git'' [] = b"
      using h by (rule strip_dot_git)
    show ?thesis unfolding normalizeRepoUrl_def 1 2 by (rule refl)
  qed
  have b: "normalizeRepoUrl (''git+'' @ b) = convertSshUrlToHttps b"
    if h: "\<not> str_includes b ''.git''"
  proof -
    have 1: "js_replace (''git+'' @ b) ''git+'' [] = b"
      by (rule strip_git_plus)
    have 2: "js_replace b ''.git'' [] = b"
      using h by (rule js_replace_absent)
    show ?thesis unfolding normalizeRepoUrl_def 1 2 by (rule refl)
  qed
  have c: "normalizeRepoUrl (b @ ''.git'') = convertSshUrlToHttps b"
    if h1: "\<not> str_includes (b @ ''.git'') ''git+''"
      and h2: "\<not> str_includes (b @ ''.gi'') ''.git''"
  proof -
    have 1: "js_replace (b @ ''.git'') ''git+'' [] = b @ ''.git''"
      using h1 by (rule js_replace_absent)
    have 2: "js_replace (b @ ''.git'') ''.git'' [] = b"
      using h2 by (rule strip_dot_git)
    show ?thesis unfolding normalizeRepoUrl_def 1 2 by (rule refl)
  qed
  have d: "normalizeRepoUrl b = convertSshUrlToHttps b"
    if h1: "\<not> str_includes b ''git+''" and h2: "\<not> str_includes b ''.git''"
  proof -
    have 1: "js_replace b ''git+'' [] = b"
      using h1 by (rule js_replace_absent)
    have 2: "js_replace b ''.git'' [] = b"
      using h2 by (rule js_replace_absent)
    show ?thesis unfolding normalizeRepoUrl_def 1 2 by (rule refl)
  qed
  show ?thesis
    using a b c d convert_ssh convert_scp convert_git convert_other by blast
qed

theorem normalizeRepoUrl_github_witness:
  "\<not> str_includes ''ssh://git@github.com/acme/widget.gi'' ''.git''
   \<and> normalizeRepoUrl ''git+ssh://git@github.com/acme/widget.git'' = ''https://github.com/acme/widget''
   \<and> \<not> startsWith ''https://gitlab.com/acme/widget'' ''ssh://git@github.com/''
   \<and> \<not> startsWith ''https://gitlab.com/acme/widget'' ''git@github.com:''
   \<and> \<not> startsWith ''https://gitlab.com/acme/widget'' ''git://github.com/''
   \<and> convertSshUrlToHttps ''https://gitlab.com/acme/widget'' = ''https://gitlab.com/acme/widget''"
  using normalizeRepoUrl_github [of "''ssh://git@github.com/acme/widget''" "''acme/widget''"
      "''https://gitlab.com/acme/widget''"]
  by (simp add: startsWith_def)

text \<open>
  The same transport form on another host is not rewritten: only the suffix is removed.
\<close>

theorem normalizeRepoUrl_any_host_counterexample:
  "normalizeRepoUrl ''git@gitlab.com:acme/widget.git'' = ''git@gitlab.com:acme/widget''
   \<and> normalizeRepoUrl ''git@gitlab.com:acme/widget.git'' \<noteq> ''https://gitlab.com/acme/widget''"
  by (simp add: normalizeRepoUrl_def convertSshUrlToHttps_def startsWith_def)

text \<open>
  A remark on the suffix: \<^verbatim>\<open>replace('.git', '')\<close> removes the first
  \<^verbatim>\<open>.git\<close> of the string, which need not be the suffix.
\<close>

lemma normalizeRepoUrl_first_occurrence:
  "normalizeRepoUrl ''git+https://github.com/acme/acme.github.io.git'' =
     ''https://github.com/acme/acmehub.io.git''"
  by (simp add: normalizeRepoUrl_def convertSshUrlToHttps_def startsWith_def)

subsection \<open>Release reference: the documentation URL\<close>

lemma checkReleases_returns: "\<exists>b. checkReleases ax r = Inr b"
  by (cases "ax (releasesRequest r)") (auto simp: checkReleases_def split: response_data.split)

lemma docUrl_of_update:
  "dependencyUpdate ax (p, current) = Some u \<Longrightarrow> getPackageInfo ax p = Some info \<Longrightarrow>
   docUrl u = resolveDocUrl ax p info"
  by (auto simp: dependencyUpdate_def Let_def split: if_splits)

text \<open>
  C1. For every record the detector emits: when the registry gives a repository URL
  whose normal form (line 116) is not empty, the documentation URL is the releases
  listing of the repository if the probe finds releases, and the npm versions page of
  the package if the probe finds none or fails, whether or not a homepage is present.
  The homepage is used only when the registry gives no repository URL, or one whose
  normal form is empty (such as \<^verbatim>\<open>.git\<close>), and the npm versions page also when
  there is neither such a repository URL nor a homepage.
\<close>

theorem docUrl_fallback:
  assumes "dependencyUpdate ax (p, current) = Some u"
    and "getPackageInfo ax p = Some info"
  shows "(repoUrlOf info \<noteq> [] \<and> checkReleases ax (repoUrlOf info) = Inr True \<longrightarrow>
            docUrl u = repoUrlOf info @ ''/releases'')
       \<and> (repoUrlOf info \<noteq> [] \<and> checkReleases ax (repoUrlOf info) = Inr False \<longrightarrow>
            docUrl u = npmVersionsUrl p)
       \<and> (repoUrlOf info = [] \<and> homepageUrl info = Some h \<and> h \<noteq> [] \<longrightarrow> docUrl u = h)
       \<and> (repoUrlOf info = [] \<and> (homepageUrl info = None \<or> homepageUrl info = Some []) \<longrightarrow>
            docUrl u = npmVersionsUrl p)
       \<and> (ax (releasesRequest r) = Inl e \<or> ax (releasesRequest r) = Inr (ListData 0) \<longrightarrow>
            checkReleases ax r = Inr False)
       \<and> repoUrlOf info =
            (case repositoryUrl info of None \<Rightarrow> [] | Some url \<Rightarrow> normalizeRepoUrl url)"
proof -
  have d: "docUrl u = resolveDocUrl ax p info"
    using assms by (rule docUrl_of_update)
  have c: "checkReleases ax r = Inr False"
    if "ax (releasesRequest r) = Inl e \<or> ax (releasesRequest r) = Inr (ListData 0)"
    using that by (auto simp: checkReleases_def)
  have n: "repoUrlOf info =
            (case repositoryUrl info of None \<Rightarrow> [] | Some url \<Rightarrow> normalizeRepoUrl url)"
    by (simp add: repoUrlOf_def normalizeRepoUrl_def convertSshUrlToHttps_def startsWith_def
        split: option.split)
  have f: "(repoUrlOf info \<noteq> [] \<and> checkReleases ax (repoUrlOf info) = Inr True \<longrightarrow>
            docUrl u = repoUrlOf info @ ''/releases'')
       \<and> (repoUrlOf info \<noteq> [] \<and> checkReleases ax (repoUrlOf info) = Inr False \<longrightarrow>
            docUrl u = npmVersionsUrl p)
       \<and> (repoUrlOf info = [] \<and> homepageUrl info = Some h \<and> h \<noteq> [] \<longrightarrow> docUrl u = h)
       \<and> (repoUrlOf info = [] \<and> (homepageUrl info = None \<or> homepageUrl info = Some []) \<longrightarrow>
            docUrl u = npmVersionsUrl p)"
    unfolding d by (auto simp: resolveDocUrl_def Let_def)
  show ?thesis
    using f c n by blast
qed

lemma sample_widget:
  "dependencyUpdate sampleAxios (''widget'', ''^1.2.0'') =
     Some \<lparr>pkg = ''widget'', currentVersion = ''1.2.0'', latestVersion = ''2.0.0'',
           docUrl = ''https://www.npmjs.com/package/widget?activeTab=versions''\<rparr>"
  by code_simp

lemma sample_widget_info:
  "getPackageInfo sampleAxios ''widget'' =
     Some \<lparr>registryLatest = ''2.0.0'',
           repositoryUrl = Some ''git+ssh://git@github.com/acme/widget.git'',
           homepageUrl = Some ''https://widget.example''\<rparr>"
  by code_simp

lemma sample_left_pad:
  "dependencyUpdate sampleAxios (''left-pad'', ''^1.0.0'') =
     Some \<lparr>pkg = ''left-pad'', currentVersion = ''1.0.0'', latestVersion = ''1.3.0'',
           docUrl = ''https://left-pad.example''\<rparr>"
  by code_simp

lemma sample_left_pad_info:
  "getPackageInfo sampleAxios ''left-pad'' =
     Some \<lparr>registryLatest = ''1.3.0'', repositoryUrl = None,
           homepageUrl = Some ''https://left-pad.example''\<rparr>"
  by code_simp

lemma sample_odd:
  "dependencyUpdate sampleAxios (''odd'', ''~1.0.0'') =
     Some \<lparr>pkg = ''odd'', currentVersion = ''1.0.0'', latestVersion = ''1.1.0'',
           docUrl = ''https://odd.example''\<rparr>"
  by code_simp

lemma sample_odd_info:
  "getPackageInfo sampleAxios ''odd'' =
     Some \<lparr>registryLatest = ''1.1.0'', repositoryUrl = Some ''.git'',
           homepageUrl = Some ''https://odd.example''\<rparr>"
  by code_simp

theorem docUrl_fallback_witness:
  "dependencyUpdate sampleAxios (''widget'', ''^1.2.0'') =
     Some \<lparr>pkg = ''widget'', currentVersion = ''1.2.0'', latestVersion = ''2.0.0'',
           docUrl = ''https://www.npmjs.com/package/widget?activeTab=versions''\<rparr>
   \<and> getPackageInfo sampleAxios ''widget'' =
     Some \<lparr>registryLatest = ''2.0.0'',
           repositoryUrl = Some ''git+ssh://git@github.com/acme/widget.git'',
           homepageUrl = Some ''https://widget.example''\<rparr>
   \<and> repoUrlOf \<lparr>registryLatest = ''2.0.0'',
           repositoryUrl = Some ''git+ssh://git@github.com/acme/widget.git'',
           homepageUrl = Some ''https://widget.example''\<rparr> = ''https://github.com/acme/widget''
   \<and> checkReleases sampleAxios ''https://github.com/acme/widget'' = Inr False
   \<and> npmVersionsUrl ''widget'' = ''https://www.npmjs.com/package/widget?activeTab=versions''
   \<and> dependencyUpdate sampleAxios (''left-pad'', ''^1.0.0'') =
     Some \<lparr>pkg = ''left-pad'', currentVersion = ''1.0.0'', latestVersion = ''1.3.0'',
           docUrl = ''https://left-pad.example''\<rparr>
   \<and> repoUrlOf \<lparr>registryLatest = ''1.3.0'', repositoryUrl = None,
           homepageUrl = Some ''https://left-pad.example''\<rparr> = []
   \<and> dependencyUpdate sampleAxios (''odd'', ''~1.0.0'') =
     Some \<lparr>pkg = ''odd'', currentVersion = ''1.0.0'', latestVersion = ''1.1.0'',
           docUrl = ''https://odd.example''\<rparr>
   \<and> repoUrlOf \<lparr>registryLatest = ''1.1.0'', repositoryUrl = Some ''.git'',
           homepageUrl = Some ''https://odd.example''\<rparr> = []"
proof -
  have o: "repoUrlOf \<lparr>registryLatest = ''1.1.0'', repositoryUrl = Some ''.git'',
           homepageUrl = Some ''https://odd.example''\<rparr> = []"
    by code_simp
  have l: "repoUrlOf \<lparr>registryLatest = ''1.3.0'', repositoryUrl = None,
           homepageUrl = Some ''https://left-pad.example''\<rparr> = []"
    by code_simp
  have r: "repoUrlOf \<lparr>registryLatest = ''2.0.0'',
           repositoryUrl = Some ''git+ssh://git@github.com/acme/widget.git'',
           homepageUrl = Some ''https://widget.example''\<rparr> = ''https://github.com/acme/widget''"
    by code_simp
  have c: "checkReleases sampleAxios ''https://github.com/acme/widget'' = Inr False"
    by code_simp
  have n: "npmVersionsUrl ''widget'' = ''https://www.npmjs.com/package/widget?activeTab=versions''"
    by code_simp
  from docUrl_fallback [OF sample_widget sample_widget_info] r c n l o
    docUrl_fallback [OF sample_left_pad sample_left_pad_info, of "''https://left-pad.example''"]
    docUrl_fallback [OF sample_odd sample_odd_info, of "''https://odd.example''"]
  show ?thesis
    using sample_widget sample_widget_info sample_left_pad sample_odd by simp
qed

text \<open>
  With a repository that has no releases and a homepage, the documentation URL is the
  npm versions page, not the homepage.
\<close>

theorem docUrl_homepage_counterexample:
  "getPackageInfo sampleAxios ''widget'' =
     Some \<lparr>registryLatest = ''2.0.0'',
           repositoryUrl = Some ''git+ssh://git@github.com/acme/widget.git'',
           homepageUrl = Some ''https://widget.example''\<rparr>
   \<and> checkReleases sampleAxios (normalizeRepoUrl ''git+ssh://git@github.com/acme/widget.git'') = Inr False
   \<and> map docUrl (getDependencyUpdates sampleAxios [(''widget'', ''^1.2.0'')]) =
       [''https://www.npmjs.com/package/widget?activeTab=versions'']
   \<and> map docUrl (getDependencyUpdates sampleAxios [(''widget'', ''^1.2.0'')]) \<noteq>
       [''https://widget.example'']"
  by code_simp

subsection \<open>Version distance\<close>

lemma bitLength_nonpos: "n \<le> 0 \<Longrightarrow> bitLength n = 0"
  by (subst bitLength.simps) simp

lemma bitLength_pos: "0 < n \<Longrightarrow> bitLength n = Suc (bitLength (n div 2))"
  by (subst bitLength.simps) simp

lemma bitLength_le: "n < 2 ^ k \<Longrightarrow> bitLength n \<le> k"
proof (induction k arbitrary: n)
  case 0
  then show ?case by (simp add: bitLength_nonpos)
next
  case (Suc k)
  show ?case
  proof (cases "0 < n")
    case True
    from Suc.prems have "n div 2 < 2 ^ k" by simp
    then have "bitLength (n div 2) \<le> k" by (rule Suc.IH)
    with True show ?thesis by (simp add: bitLength_pos)
  next
    case False
    then show ?thesis by (simp add: bitLength_nonpos)
  qed
qed

lemma bitLength_lower: "0 < n \<Longrightarrow> 2 ^ bitLength n \<le> 2 * n"
proof (induction n rule: bitLength.induct)
  case (1 n)
  show ?case
  proof (cases "0 < n div 2")
    case True
    with "1.IH" "1.prems" have "2 ^ bitLength (n div 2) \<le> 2 * (n div 2)" by simp
    also have "\<dots> \<le> n" by simp
    finally show ?thesis using "1.prems" by (simp add: bitLength_pos)
  next
    case False
    with "1.prems" have "n = 1" by simp
    then show ?thesis by (simp add: bitLength_pos bitLength_nonpos)
  qed
qed

lemma toDouble_exact: "\<bar>x\<bar> < 2 ^ 53 \<Longrightarrow> toDouble x = x"
proof -
  assume "\<bar>x\<bar> < 2 ^ 53"
  then have "bitLength \<bar>x\<bar> \<le> 53" by (rule bitLength_le)
  then show ?thesis by (simp add: toDouble_def Let_def)
qed

lemma toDouble_big:
  assumes "53 < bitLength \<bar>x\<bar>"
  shows "\<exists>m q. 0 < m \<and> 0 < q \<and> toDouble x = sgn x * (m * q)"
proof -
  define a where "a = \<bar>x\<bar>"
  define q :: int where "q = 2 ^ (bitLength a - 53)"
  define lo where "lo = a div q"
  define m where "m = (if q < 2 * (a mod q) \<or> (2 * (a mod q) = q \<and> odd lo) then lo + 1 else lo)"
  from assms have k: "53 < bitLength a" by (simp only: a_def)
  have a0: "0 < a"
  proof (rule ccontr)
    assume "\<not> 0 < a"
    then have "bitLength a = 0" by (simp add: bitLength_nonpos)
    with k show False by simp
  qed
  have "2 * q = 2 ^ Suc (bitLength a - 53)" by (simp only: q_def power_Suc)
  also have "\<dots> \<le> (2::int) ^ bitLength a"
  proof (rule power_increasing)
    show "Suc (bitLength a - 53) \<le> bitLength a" using k by arith
    show "(1::int) \<le> 2" by simp
  qed
  also have "\<dots> \<le> 2 * a" using a0 by (rule bitLength_lower)
  finally have qa: "q \<le> a" by arith
  have q0: "0 < q" unfolding q_def by (rule zero_less_power) simp
  from qa q0 have l0: "0 < lo" unfolding lo_def by (simp add: pos_imp_zdiv_pos_iff)
  have m0: "0 < m"
  proof (cases "q < 2 * (a mod q) \<or> (2 * (a mod q) = q \<and> odd lo)")
    case True
    then have "m = lo + 1" by (simp only: m_def if_True)
    with l0 show ?thesis by arith
  next
    case False
    then have "m = lo" by (simp only: m_def if_False)
    with l0 show ?thesis by arith
  qed
  have nk: "\<not> bitLength a \<le> 53" using k by arith
  have "toDouble x = sgn x * (m * q)"
    unfolding toDouble_def Let_def a_def [symmetric] q_def [symmetric] lo_def [symmetric]
      m_def [symmetric]
    using nk by (simp only: if_False)
  with m0 q0 show ?thesis by blast
qed

lemma toDouble_sign: "(toDouble x \<le> 0) = (x \<le> 0)"
proof (cases "bitLength \<bar>x\<bar> \<le> 53")
  case True
  then show ?thesis by (simp add: toDouble_def Let_def)
next
  case False
  then have "53 < bitLength \<bar>x\<bar>" by simp
  then obtain m q where "0 < m" "0 < q" and t: "toDouble x = sgn x * (m * q)"
    using toDouble_big by blast
  then have p: "0 < m * q" by simp
  show ?thesis
  proof (cases "x \<le> 0")
    case True
    then have "sgn x \<le> 0" by (simp add: sgn_if)
    with p have "sgn x * (m * q) \<le> 0" by (simp add: mult_le_0_iff)
    with True t show ?thesis by simp
  next
    case False
    then have "sgn x = 1" by (simp add: sgn_if)
    with p t False show ?thesis by simp
  qed
qed

lemma calculateVersionDifference_exact:
  assumes "parseVersion c = Some a" and "parseVersion l = Some b"
    and bound: "\<bar>major b - major a\<bar> * 10000 + \<bar>minor b - minor a\<bar> * 100
                  + \<bar>patch b - patch a\<bar> < 2 ^ 53"
  shows "calculateVersionDifference parseVersion c l =
           (major b - major a) * 10000 + (minor b - minor a) * 100 + (patch b - patch a)"
proof -
  define M where "M = major b - major a"
  define N where "N = minor b - minor a"
  define P where "P = patch b - patch a"
  from bound have B: "\<bar>M\<bar> * 10000 + \<bar>N\<bar> * 100 + \<bar>P\<bar> < 2 ^ 53"
    by (simp only: M_def N_def P_def)
  have 1: "toDouble M = M" using B by (intro toDouble_exact) linarith
  have 2: "toDouble N = N" using B by (intro toDouble_exact) linarith
  have 3: "toDouble P = P" using B by (intro toDouble_exact) linarith
  have 4: "toDouble (M * 10000) = M * 10000"
  proof (rule toDouble_exact)
    have "\<bar>M * 10000\<bar> = \<bar>M\<bar> * 10000" by (simp add: abs_mult)
    then show "\<bar>M * 10000\<bar> < 2 ^ 53" using B by linarith
  qed
  have 5: "toDouble (N * 100) = N * 100"
  proof (rule toDouble_exact)
    have "\<bar>N * 100\<bar> = \<bar>N\<bar> * 100" by (simp add: abs_mult)
    then show "\<bar>N * 100\<bar> < 2 ^ 53" using B by linarith
  qed
  have 6: "toDouble (M * 10000 + N * 100) = M * 10000 + N * 100"
  proof (rule toDouble_exact)
    have "\<bar>M * 10000 + N * 100\<bar> \<le> \<bar>M\<bar> * 10000 + \<bar>N\<bar> * 100" by linarith
    then show "\<bar>M * 10000 + N * 100\<bar> < 2 ^ 53" using B by linarith
  qed
  have 7: "toDouble (M * 10000 + N * 100 + P) = M * 10000 + N * 100 + P"
  proof (rule toDouble_exact)
    have "\<bar>M * 10000 + N * 100 + P\<bar> \<le> \<bar>M\<bar> * 10000 + \<bar>N\<bar> * 100 + \<bar>P\<bar>" by linarith
    then show "\<bar>M * 10000 + N * 100 + P\<bar> < 2 ^ 53" using B by linarith
  qed
  have "calculateVersionDifference parseVersion c l =
          toDouble (toDouble (toDouble (toDouble M * 10000) + toDouble (toDouble N * 100)) + toDouble P)"
    using assms(1,2) by (simp add: calculateVersionDifference_def Let_def M_def N_def P_def)
  also have "\<dots> = M * 10000 + N * 100 + P"
    by (simp only: 1 2 3 4 5 6 7)
  finally show ?thesis
    by (simp only: M_def N_def P_def)
qed

text \<open>
  C3. When \<^verbatim>\<open>semver.parse\<close> accepts both versions and the absolute differences
  of the components, weighted by 10000, 100 and 1, add up to less than \<open>2 ^ 53\<close>, the
  distance is the difference of the major components times 10000, plus that of the minor
  components times 100, plus that of the patch components. In general it is that sum
  with every operation rounded to a double. When \<^verbatim>\<open>semver.parse\<close> rejects either
  version, the distance is 0.
\<close>

theorem calculateVersionDifference_formula:
  "(parseVersion c = Some a \<and> parseVersion l = Some b
       \<and> \<bar>major b - major a\<bar> * 10000 + \<bar>minor b - minor a\<bar> * 100
            + \<bar>patch b - patch a\<bar> < 2 ^ 53 \<longrightarrow>
      calculateVersionDifference parseVersion c l =
        (major b - major a) * 10000 + (minor b - minor a) * 100 + (patch b - patch a))
   \<and> (parseVersion c = Some a \<and> parseVersion l = Some b \<longrightarrow>
      calculateVersionDifference parseVersion c l =
        toDouble (toDouble (toDouble (toDouble (major b - major a) * 10000)
                            + toDouble (toDouble (minor b - minor a) * 100))
                  + toDouble (patch b - patch a)))
   \<and> (parseVersion c = None \<or> parseVersion l = None \<longrightarrow>
      calculateVersionDifference parseVersion c l = 0)"
proof -
  have g: "calculateVersionDifference parseVersion c l =
        toDouble (toDouble (toDouble (toDouble (major b - major a) * 10000)
                            + toDouble (toDouble (minor b - minor a) * 100))
                  + toDouble (patch b - patch a))"
    if "parseVersion c = Some a" and "parseVersion l = Some b"
    using that by (simp add: calculateVersionDifference_def Let_def)
  have z: "calculateVersionDifference parseVersion c l = 0"
    if "parseVersion c = None \<or> parseVersion l = None"
    using that by (auto simp: calculateVersionDifference_def split: option.splits)
  show ?thesis
    using calculateVersionDifference_exact [of parseVersion c a l b] g z by blast
qed

theorem calculateVersionDifference_formula_witness:
  "sampleVersions ''1.2.0'' = Some \<lparr>major = 1, minor = 2, patch = 0\<rparr>
   \<and> sampleVersions ''3.0.0'' = Some \<lparr>major = 3, minor = 0, patch = 0\<rparr>
   \<and> \<bar>3 - 1\<bar> * 10000 + \<bar>0 - 2\<bar> * 100 + \<bar>0 - 0\<bar> < (2::int) ^ 53
   \<and> calculateVersionDifference sampleVersions ''1.2.0'' ''3.0.0'' = 19800
   \<and> sampleVersions ''latest'' = None
   \<and> calculateVersionDifference sampleVersions ''latest'' ''3.0.0'' = 0"
  using calculateVersionDifference_formula [of sampleVersions "''1.2.0''"
          "\<lparr>major = 1, minor = 2, patch = 0\<rparr>" "''3.0.0''" "\<lparr>major = 3, minor = 0, patch = 0\<rparr>"]
        calculateVersionDifference_formula [of sampleVersions "''latest''"
          "\<lparr>major = 1, minor = 2, patch = 0\<rparr>" "''3.0.0''" "\<lparr>major = 3, minor = 0, patch = 0\<rparr>"]
  by (simp add: sampleVersions_def)

text \<open>
  From \<^verbatim>\<open>0.0.0\<close> to \<^verbatim>\<open>9007199254740991.0.1\<close> the product by 10000 is rounded
  and the patch difference is lost in the sum: the distance is not the exact value.
\<close>

theorem calculateVersionDifference_rounding_counterexample:
  "sampleVersions ''0.0.0'' = Some \<lparr>major = 0, minor = 0, patch = 0\<rparr>
   \<and> sampleVersions ''9007199254740991.0.1'' =
       Some \<lparr>major = 9007199254740991, minor = 0, patch = 1\<rparr>
   \<and> calculateVersionDifference sampleVersions ''0.0.0'' ''9007199254740991.0.1'' =
       90071992547409903616
   \<and> (9007199254740991 - 0) * 10000 + (0 - 0) * 100 + (1 - 0) = (90071992547409910001::int)
   \<and> calculateVersionDifference sampleVersions ''0.0.0'' ''9007199254740991.0.1'' \<noteq>
       (9007199254740991 - 0) * 10000 + (0 - 0) * 100 + (1 - 0)"
  by code_simp

subsection \<open>Update detector\<close>

lemma outdated_iff:
  "outdated ax (p, c) =
     (\<exists>info. getPackageInfo ax p = Some info \<and> registryLatest info \<noteq> normalizeVersion c)"
  by (simp add: outdated_def split: option.split)

lemma dependencyUpdate_None: "\<not> outdated ax d \<Longrightarrow> dependencyUpdate ax d = None"
  by (cases d) (auto simp: outdated_def dependencyUpdate_def Let_def split: option.splits)

lemma dependencyUpdate_Some:
  "outdated ax d \<Longrightarrow>
   \<exists>u. dependencyUpdate ax d = Some u \<and> pkg u = fst d \<and> currentVersion u = normalizeVersion (snd d)
        \<and> currentVersion u \<noteq> latestVersion u"
  by (cases d) (auto simp: outdated_def dependencyUpdate_def Let_def split: option.splits)

lemma getDependencyUpdates_Cons:
  "getDependencyUpdates ax (d # ds) =
     (case dependencyUpdate ax d of
        None \<Rightarrow> getDependencyUpdates ax ds
      | Some u \<Rightarrow> u # getDependencyUpdates ax ds)"
  unfolding getDependencyUpdates_def by simp

lemma getDependencyUpdates_Nil: "getDependencyUpdates ax [] = []"
  by (simp add: getDependencyUpdates_def)

lemma getDependencyUpdates_append:
  "getDependencyUpdates ax (xs @ ys) = getDependencyUpdates ax xs @ getDependencyUpdates ax ys"
  by (induction xs) (simp_all add: getDependencyUpdates_Nil getDependencyUpdates_Cons split: option.split)

lemma pkgs_of_updates:
  "map pkg (getDependencyUpdates ax deps) = map fst (filter (outdated ax) deps)"
proof (induction deps)
  case Nil
  show ?case by (simp add: getDependencyUpdates_Nil)
next
  case (Cons d ds)
  show ?case
  proof (cases "outdated ax d")
    case True
    then obtain u where "dependencyUpdate ax d = Some u" and "pkg u = fst d"
      using dependencyUpdate_Some by blast
    with True Cons.IH show ?thesis by (simp add: getDependencyUpdates_Cons)
  next
    case False
    with Cons.IH show ?thesis
      by (simp add: getDependencyUpdates_Cons dependencyUpdate_None)
  qed
qed

lemma updates_differ:
  "u \<in> set (getDependencyUpdates ax deps) \<Longrightarrow> currentVersion u \<noteq> latestVersion u"
proof (induction deps)
  case Nil
  then show ?case by (simp add: getDependencyUpdates_Nil)
next
  case (Cons d ds)
  show ?case
  proof (cases "outdated ax d")
    case True
    then obtain v where "dependencyUpdate ax d = Some v" and "currentVersion v \<noteq> latestVersion v"
      using dependencyUpdate_Some by blast
    with Cons show ?thesis by (auto simp: getDependencyUpdates_Cons)
  next
    case False
    with Cons show ?thesis
      by (simp add: getDependencyUpdates_Cons dependencyUpdate_None)
  qed
qed

lemma getPackageInfo_failed:
  "ax (''https://registry.npmjs.org/'' @ p) = Inl e
     \<or> ax (''https://registry.npmjs.org/'' @ p) = Inr (ListData k)
     \<or> ax (''https://registry.npmjs.org/'' @ p) = Inr OtherData \<Longrightarrow>
   getPackageInfo ax p = None"
  by (auto simp: getPackageInfo_def)

lemma getPackageInfo_document:
  "ax (''https://registry.npmjs.org/'' @ p) = Inr (PackageDoc d) \<Longrightarrow>
   getPackageInfo ax p =
     Some \<lparr>registryLatest = dist_tags_latest d, repositoryUrl = repository_url d,
           homepageUrl = homepage d\<rparr>"
  by (simp add: getPackageInfo_def)

lemma dropped_in_batch:
  "dependencyUpdate ax (p, c) = None \<Longrightarrow>
   getDependencyUpdates ax (xs @ (p, c) # ys) =
     getDependencyUpdates ax xs @ getDependencyUpdates ax ys"
  by (simp add: getDependencyUpdates_append getDependencyUpdates_Cons)

text \<open>
  C6. The detector emits a record for a dependency exactly when the registry fetch
  succeeded and the registry's latest version differs from the normalized current
  version, in the order of the dependencies. A dependency whose request fails, or is
  answered by something that is not a registry document, is dropped and the records of
  the others are still produced; a dependency whose document names the normalized
  current version as the latest is dropped too; any other gets the record of its
  normalized current version, the latest version and the documentation URL. In every
  emitted record the current and the latest version differ; when no dependency is
  outdated the output is empty.
\<close>

theorem getDependencyUpdates_outdated_only:
  "map pkg (getDependencyUpdates ax deps) = map fst (filter (outdated ax) deps)
   \<and> outdated ax (p, c) =
       (\<exists>info. getPackageInfo ax p = Some info \<and> registryLatest info \<noteq> normalizeVersion c)
   \<and> (dependencyUpdate ax (p, c) \<noteq> None) = outdated ax (p, c)
   \<and> (getPackageInfo ax p = None \<longrightarrow>
        getDependencyUpdates ax (xs @ (p, c) # ys) =
          getDependencyUpdates ax xs @ getDependencyUpdates ax ys)
   \<and> (\<forall>u \<in> set (getDependencyUpdates ax deps). currentVersion u \<noteq> latestVersion u)
   \<and> ((\<forall>d \<in> set deps. \<not> outdated ax d) \<longrightarrow> getDependencyUpdates ax deps = [])
   \<and> (ax (''https://registry.npmjs.org/'' @ p) = Inl e
        \<or> ax (''https://registry.npmjs.org/'' @ p) = Inr (ListData k)
        \<or> ax (''https://registry.npmjs.org/'' @ p) = Inr OtherData \<longrightarrow>
        getPackageInfo ax p = None
        \<and> dependencyUpdate ax (p, c) = None
        \<and> getDependencyUpdates ax (xs @ (p, c) # ys) =
              getDependencyUpdates ax xs @ getDependencyUpdates ax ys)
   \<and> (ax (''https://registry.npmjs.org/'' @ p) = Inr (PackageDoc doc) \<longrightarrow>
        getPackageInfo ax p =
          Some \<lparr>registryLatest = dist_tags_latest doc, repositoryUrl = repository_url doc,
                homepageUrl = homepage doc\<rparr>)
   \<and> (ax (''https://registry.npmjs.org/'' @ p) = Inr (PackageDoc doc)
        \<and> dist_tags_latest doc \<noteq> normalizeVersion c \<longrightarrow>
        dependencyUpdate ax (p, c) =
          Some \<lparr>pkg = p, currentVersion = normalizeVersion c,
                latestVersion = dist_tags_latest doc,
                docUrl = resolveDocUrl ax p
                  \<lparr>registryLatest = dist_tags_latest doc, repositoryUrl = repository_url doc,
                   homepageUrl = homepage doc\<rparr>\<rparr>)
   \<and> (ax (''https://registry.npmjs.org/'' @ p) = Inr (PackageDoc doc)
        \<and> dist_tags_latest doc = normalizeVersion c \<longrightarrow>
        dependencyUpdate ax (p, c) = None
        \<and> getDependencyUpdates ax (xs @ (p, c) # ys) =
              getDependencyUpdates ax xs @ getDependencyUpdates ax ys)
   \<and> getDependencyUpdates ax [] = []
   \<and> getDependencyUpdates ax ((p, c) # ys) =
       (case dependencyUpdate ax (p, c) of
          None \<Rightarrow> getDependencyUpdates ax ys
        | Some u \<Rightarrow> u # getDependencyUpdates ax ys)"
proof -
  have a: "(dependencyUpdate ax (p, c) \<noteq> None) = outdated ax (p, c)"
  proof (cases "outdated ax (p, c)")
    case True
    then show ?thesis using dependencyUpdate_Some [of ax "(p, c)"] by auto
  next
    case False
    then show ?thesis using dependencyUpdate_None [of ax "(p, c)"] by simp
  qed
  have b: "getDependencyUpdates ax (xs @ (p, c) # ys) =
          getDependencyUpdates ax xs @ getDependencyUpdates ax ys"
    if "getPackageInfo ax p = None"
  proof -
    have "\<not> outdated ax (p, c)" using that by (simp add: outdated_def)
    then have "dependencyUpdate ax (p, c) = None" by (rule dependencyUpdate_None)
    then show ?thesis by (rule dropped_in_batch)
  qed
  have c: "getDependencyUpdates ax deps = []" if "\<forall>d \<in> set deps. \<not> outdated ax d"
  proof -
    have "filter (outdated ax) deps = []" using that by (simp add: filter_empty_conv)
    then have "map pkg (getDependencyUpdates ax deps) = []" by (simp add: pkgs_of_updates)
    then show ?thesis by simp
  qed
  have f: "getPackageInfo ax p = None
        \<and> dependencyUpdate ax (p, c) = None
        \<and> getDependencyUpdates ax (xs @ (p, c) # ys) =
              getDependencyUpdates ax xs @ getDependencyUpdates ax ys"
    if h: "ax (''https://registry.npmjs.org/'' @ p) = Inl e
        \<or> ax (''https://registry.npmjs.org/'' @ p) = Inr (ListData k)
        \<or> ax (''https://registry.npmjs.org/'' @ p) = Inr OtherData"
  proof -
    have n: "getPackageInfo ax p = None" using h by (rule getPackageInfo_failed)
    then have "dependencyUpdate ax (p, c) = None" by (simp add: dependencyUpdate_def)
    with n b show ?thesis by simp
  qed
  have g: "getPackageInfo ax p =
          Some \<lparr>registryLatest = dist_tags_latest doc, repositoryUrl = repository_url doc,
                homepageUrl = homepage doc\<rparr>"
    if "ax (''https://registry.npmjs.org/'' @ p) = Inr (PackageDoc doc)"
    using that by (rule getPackageInfo_document)
  have r: "dependencyUpdate ax (p, c) =
          Some \<lparr>pkg = p, currentVersion = normalizeVersion c,
                latestVersion = dist_tags_latest doc,
                docUrl = resolveDocUrl ax p
                  \<lparr>registryLatest = dist_tags_latest doc, repositoryUrl = repository_url doc,
                   homepageUrl = homepage doc\<rparr>\<rparr>"
    if "ax (''https://registry.npmjs.org/'' @ p) = Inr (PackageDoc doc)"
      and "dist_tags_latest doc \<noteq> normalizeVersion c"
    using that g by (simp add: dependencyUpdate_def Let_def)
  have k: "dependencyUpdate ax (p, c) = None
        \<and> getDependencyUpdates ax (xs @ (p, c) # ys) =
              getDependencyUpdates ax xs @ getDependencyUpdates ax ys"
    if "ax (''https://registry.npmjs.org/'' @ p) = Inr (PackageDoc doc)"
      and "dist_tags_latest doc = normalizeVersion c"
  proof -
    have "dependencyUpdate ax (p, c) = None"
      using that g by (simp add: dependencyUpdate_def Let_def)
    then show ?thesis using dropped_in_batch by blast
  qed
  have 1: "map pkg (getDependencyUpdates ax deps) = map fst (filter (outdated ax) deps)"
    by (rule pkgs_of_updates)
  have 2: "outdated ax (p, c) =
       (\<exists>info. getPackageInfo ax p = Some info \<and> registryLatest info \<noteq> normalizeVersion c)"
    by (rule outdated_iff)
  have 3: "\<forall>u \<in> set (getDependencyUpdates ax deps). currentVersion u \<noteq> latestVersion u"
    using updates_differ by blast
  have 4: "getDependencyUpdates ax [] = []" by (rule getDependencyUpdates_Nil)
  have 5: "getDependencyUpdates ax ((p, c) # ys) =
       (case dependencyUpdate ax (p, c) of
          None \<Rightarrow> getDependencyUpdates ax ys
        | Some u \<Rightarrow> u # getDependencyUpdates ax ys)"
    by (rule getDependencyUpdates_Cons)
  have 6: "ax (''https://registry.npmjs.org/'' @ p) = Inl e
        \<or> ax (''https://registry.npmjs.org/'' @ p) = Inr (ListData k)
        \<or> ax (''https://registry.npmjs.org/'' @ p) = Inr OtherData \<longrightarrow>
        getPackageInfo ax p = None
        \<and> dependencyUpdate ax (p, c) = None
        \<and> getDependencyUpdates ax (xs @ (p, c) # ys) =
              getDependencyUpdates ax xs @ getDependencyUpdates ax ys"
    using f by blast
  have 7: "ax (''https://registry.npmjs.org/'' @ p) = Inr (PackageDoc doc) \<longrightarrow>
        getPackageInfo ax p =
          Some \<lparr>registryLatest = dist_tags_latest doc, repositoryUrl = repository_url doc,
                homepageUrl = homepage doc\<rparr>"
    using g by blast
  have 8: "ax (''https://registry.npmjs.org/'' @ p) = Inr (PackageDoc doc)
        \<and> dist_tags_latest doc \<noteq> normalizeVersion c \<longrightarrow>
        dependencyUpdate ax (p, c) =
          Some \<lparr>pkg = p, currentVersion = normalizeVersion c,
                latestVersion = dist_tags_latest doc,
                docUrl = resolveDocUrl ax p
                  \<lparr>registryLatest = dist_tags_latest doc, repositoryUrl = repository_url doc,
                   homepageUrl = homepage doc\<rparr>\<rparr>"
    using r by blast
  have 9: "ax (''https://registry.npmjs.org/'' @ p) = Inr (PackageDoc doc)
        \<and> dist_tags_latest doc = normalizeVersion c \<longrightarrow>
        dependencyUpdate ax (p, c) = None
        \<and> getDependencyUpdates ax (xs @ (p, c) # ys) =
              getDependencyUpdates ax xs @ getDependencyUpdates ax ys"
    using k by blast
  have 10: "getPackageInfo ax p = None \<longrightarrow>
        getDependencyUpdates ax (xs @ (p, c) # ys) =
          getDependencyUpdates ax xs @ getDependencyUpdates ax ys"
    using b by blast
  have 11: "(\<forall>d \<in> set deps. \<not> outdated ax d) \<longrightarrow> getDependencyUpdates ax deps = []"
    using c by blast
  show ?thesis
    using 1 2 a 10 3 11 6 7 8 9 4 5 by (intro conjI) assumption+
qed

theorem getDependencyUpdates_outdated_only_witness:
  "sampleAxios (''https://registry.npmjs.org/'' @ ''ghost'') = Inl ''Request failed with status code 404''
   \<and> sampleAxios (''https://registry.npmjs.org/'' @ ''broken'') = Inr OtherData
   \<and> getPackageInfo sampleAxios ''ghost'' = None
   \<and> getPackageInfo sampleAxios ''broken'' = None
   \<and> getDependencyUpdates sampleAxios
        ([(''left-pad'', ''^1.0.0'')] @ (''ghost'', ''^0.1.0'') # [(''tool'', ''~1.0.0''), (''plain'', ''1.0.0'')]) =
       [\<lparr>pkg = ''left-pad'', currentVersion = ''1.0.0'', latestVersion = ''1.3.0'',
          docUrl = ''https://left-pad.example''\<rparr>,
        \<lparr>pkg = ''plain'', currentVersion = ''1.0.0'', latestVersion = ''1.0.5'',
          docUrl = ''https://www.npmjs.com/package/plain?activeTab=versions''\<rparr>]
   \<and> getDependencyUpdates sampleAxios
        ([(''left-pad'', ''^1.0.0'')] @ (''broken'', ''^0.1.0'') # [(''tool'', ''~1.0.0''), (''plain'', ''1.0.0'')]) =
       [\<lparr>pkg = ''left-pad'', currentVersion = ''1.0.0'', latestVersion = ''1.3.0'',
          docUrl = ''https://left-pad.example''\<rparr>,
        \<lparr>pkg = ''plain'', currentVersion = ''1.0.0'', latestVersion = ''1.0.5'',
          docUrl = ''https://www.npmjs.com/package/plain?activeTab=versions''\<rparr>]
   \<and> \<not> outdated sampleAxios (''tool'', ''~1.0.0'')
   \<and> getDependencyUpdates sampleAxios [(''tool'', ''~1.0.0'')] = []"
proof -
  have g: "sampleAxios (''https://registry.npmjs.org/'' @ ''ghost'') = Inl ''Request failed with status code 404''"
    by code_simp
  have b: "sampleAxios (''https://registry.npmjs.org/'' @ ''broken'') = Inr OtherData"
    by code_simp
  have t: "\<not> outdated sampleAxios (''tool'', ''~1.0.0'')" by code_simp
  have l: "getDependencyUpdates sampleAxios [(''left-pad'', ''^1.0.0'')] =
       [\<lparr>pkg = ''left-pad'', currentVersion = ''1.0.0'', latestVersion = ''1.3.0'',
          docUrl = ''https://left-pad.example''\<rparr>]" by code_simp
  have r: "getDependencyUpdates sampleAxios [(''tool'', ''~1.0.0''), (''plain'', ''1.0.0'')] =
       [\<lparr>pkg = ''plain'', currentVersion = ''1.0.0'', latestVersion = ''1.0.5'',
          docUrl = ''https://www.npmjs.com/package/plain?activeTab=versions''\<rparr>]" by code_simp
  from getDependencyUpdates_outdated_only [where ax = sampleAxios and deps = "[(''tool'', ''~1.0.0'')]"
      and p = "''ghost''" and c = "''^0.1.0''" and e = "''Request failed with status code 404''"
      and xs = "[(''left-pad'', ''^1.0.0'')]" and ys = "[(''tool'', ''~1.0.0''), (''plain'', ''1.0.0'')]"]
    getDependencyUpdates_outdated_only [where ax = sampleAxios
      and deps = "[(''left-pad'', ''^1.0.0'')] @ (''ghost'', ''^0.1.0'') # [(''tool'', ''~1.0.0''), (''plain'', ''1.0.0'')]"
      and p = "''broken''" and c = "''^0.1.0''"
      and xs = "[(''left-pad'', ''^1.0.0'')]" and ys = "[(''tool'', ''~1.0.0''), (''plain'', ''1.0.0'')]"]
  show ?thesis using g b t l r by simp
qed

subsection \<open>Ranking\<close>

lemma insertBy_insort_key:
  "(\<And>y. (cmp x y \<le> 0) = (f x \<le> f y)) \<Longrightarrow> insertBy cmp x ys = insort_key f x ys"
  by (induction ys) simp_all

lemma array_sort_sort_key:
  "(\<And>x y. (cmp x y \<le> 0) = (f x \<le> f y)) \<Longrightarrow> array_sort cmp xs = sort_key f xs"
  by (induction xs) (simp_all add: insertBy_insort_key)

lemma sortUpdates_sort_key:
  "sortUpdates parseVersion us = sort_key (\<lambda>u. - distance parseVersion u) us"
  unfolding sortUpdates_def
  by (rule array_sort_sort_key) (simp add: distance_def Let_def toDouble_sign)

lemma sortUpdates_descending:
  "sorted_wrt (\<lambda>a b. distance parseVersion b \<le> distance parseVersion a) (sortUpdates parseVersion us)"
proof -
  have "sorted (map (\<lambda>u. - distance parseVersion u) (sortUpdates parseVersion us))"
    by (simp add: sortUpdates_sort_key)
  then show ?thesis by (simp add: sorted_map)
qed

lemma sortUpdates_mset: "mset (sortUpdates parseVersion us) = mset us"
  by (simp add: sortUpdates_sort_key)

lemma sortUpdates_stable:
  "filter (\<lambda>u. distance parseVersion u = k) (sortUpdates parseVersion us) =
   filter (\<lambda>u. distance parseVersion u = k) us"
proof -
  have "filter (\<lambda>u. - distance parseVersion u = - k) (sort_key (\<lambda>u. - distance parseVersion u) us) =
        filter (\<lambda>u. - distance parseVersion u = - k) us"
    by (rule sort_key_stable)
  then show ?thesis by (simp add: sortUpdates_sort_key)
qed

text \<open>
  C4. \<^verbatim>\<open>sortUpdates\<close> returns the same records ordered by descending
  version-distance, the distance being the number \<^verbatim>\<open>calculateVersionDifference\<close>
  returns; neighbours may have equal distances (no record has a smaller distance than
  one that follows it), and the records of any one distance keep the relative order they
  had in the input.
\<close>

theorem sortUpdates_descending_stable:
  "sorted_wrt (\<lambda>a b. distance parseVersion b \<le> distance parseVersion a) (sortUpdates parseVersion us)
   \<and> mset (sortUpdates parseVersion us) = mset us
   \<and> filter (\<lambda>u. distance parseVersion u = k) (sortUpdates parseVersion us) =
       filter (\<lambda>u. distance parseVersion u = k) us"
  using sortUpdates_descending sortUpdates_mset sortUpdates_stable by blast

theorem sortUpdates_descending_stable_witness:
  "map (distance sampleVersions)
     [\<lparr>pkg = ''plain'', currentVersion = ''1.0.0'', latestVersion = ''1.0.5'', docUrl = ''N/A''\<rparr>,
      \<lparr>pkg = ''gadget'', currentVersion = ''1.0.0'', latestVersion = ''3.0.0'', docUrl = ''N/A''\<rparr>,
      \<lparr>pkg = ''knob'', currentVersion = ''1.0.0'', latestVersion = ''1.1.0'', docUrl = ''N/A''\<rparr>]
     = [5, 20000, 100]
   \<and> map (distance sampleVersions) (sortUpdates sampleVersions
     [\<lparr>pkg = ''plain'', currentVersion = ''1.0.0'', latestVersion = ''1.0.5'', docUrl = ''N/A''\<rparr>,
      \<lparr>pkg = ''gadget'', currentVersion = ''1.0.0'', latestVersion = ''3.0.0'', docUrl = ''N/A''\<rparr>,
      \<lparr>pkg = ''knob'', currentVersion = ''1.0.0'', latestVersion = ''1.1.0'', docUrl = ''N/A''\<rparr>])
     = [20000, 100, 5]
   \<and> sorted_wrt (\<lambda>a b. distance sampleVersions b \<le> distance sampleVersions a)
       (sortUpdates sampleVersions
     [\<lparr>pkg = ''plain'', currentVersion = ''1.0.0'', latestVersion = ''1.0.5'', docUrl = ''N/A''\<rparr>,
      \<lparr>pkg = ''gadget'', currentVersion = ''1.0.0'', latestVersion = ''3.0.0'', docUrl = ''N/A''\<rparr>,
      \<lparr>pkg = ''knob'', currentVersion = ''1.0.0'', latestVersion = ''1.1.0'', docUrl = ''N/A''\<rparr>])"
proof -
  have 1: "map (distance sampleVersions)
     [\<lparr>pkg = ''plain'', currentVersion = ''1.0.0'', latestVersion = ''1.0.5'', docUrl = ''N/A''\<rparr>,
      \<lparr>pkg = ''gadget'', currentVersion = ''1.0.0'', latestVersion = ''3.0.0'', docUrl = ''N/A''\<rparr>,
      \<lparr>pkg = ''knob'', currentVersion = ''1.0.0'', latestVersion = ''1.1.0'', docUrl = ''N/A''\<rparr>]
     = [5, 20000, 100]"
    by code_simp
  have 2: "map (distance sampleVersions) (sortUpdates sampleVersions
     [\<lparr>pkg = ''plain'', currentVersion = ''1.0.0'', latestVersion = ''1.0.5'', docUrl = ''N/A''\<rparr>,
      \<lparr>pkg = ''gadget'', currentVersion = ''1.0.0'', latestVersion = ''3.0.0'', docUrl = ''N/A''\<rparr>,
      \<lparr>pkg = ''knob'', currentVersion = ''1.0.0'', latestVersion = ''1.1.0'', docUrl = ''N/A''\<rparr>])
     = [20000, 100, 5]"
    by code_simp
  show ?thesis
    using 1 2 sortUpdates_descending_stable [of sampleVersions
     "[\<lparr>pkg = ''plain'', currentVersion = ''1.0.0'', latestVersion = ''1.0.5'', docUrl = ''N/A''\<rparr>,
      \<lparr>pkg = ''gadget'', currentVersion = ''1.0.0'', latestVersion = ''3.0.0'', docUrl = ''N/A''\<rparr>,
      \<lparr>pkg = ''knob'', currentVersion = ''1.0.0'', latestVersion = ''1.1.0'', docUrl = ''N/A''\<rparr>]" 0]
    by blast
qed

text \<open>
  Two records of distance 5 come out next to each other, in their input order: the
  distances of the output do not descend strictly.
\<close>

theorem sortUpdates_strict_counterexample:
  "map (distance sampleVersions) (sortUpdates sampleVersions
     [\<lparr>pkg = ''plain'', currentVersion = ''1.0.0'', latestVersion = ''1.0.5'', docUrl = ''N/A''\<rparr>,
      \<lparr>pkg = ''knob'', currentVersion = ''2.0.0'', latestVersion = ''2.0.5'', docUrl = ''N/A''\<rparr>])
     = [5, 5]
   \<and> \<not> sorted_wrt (\<lambda>a b. distance sampleVersions b < distance sampleVersions a)
       (sortUpdates sampleVersions
     [\<lparr>pkg = ''plain'', currentVersion = ''1.0.0'', latestVersion = ''1.0.5'', docUrl = ''N/A''\<rparr>,
      \<lparr>pkg = ''knob'', currentVersion = ''2.0.0'', latestVersion = ''2.0.5'', docUrl = ''N/A''\<rparr>])"
  by code_simp

text \<open>
  A remark on rounding: two records whose exact distances differ, but whose distances
  as the program computes them are the same double, keep their input order.
\<close>

lemma sortUpdates_rounded_tie:
  "map (distance sampleVersions)
     [\<lparr>pkg = ''gadget'', currentVersion = ''0.0.0'', latestVersion = ''9007199254740991.0.0'',
        docUrl = ''N/A''\<rparr>,
      \<lparr>pkg = ''knob'', currentVersion = ''0.0.0'', latestVersion = ''9007199254740991.0.1'',
        docUrl = ''N/A''\<rparr>] = [90071992547409903616, 90071992547409903616]
   \<and> map pkg (sortUpdates sampleVersions
     [\<lparr>pkg = ''gadget'', currentVersion = ''0.0.0'', latestVersion = ''9007199254740991.0.0'',
        docUrl = ''N/A''\<rparr>,
      \<lparr>pkg = ''knob'', currentVersion = ''0.0.0'', latestVersion = ''9007199254740991.0.1'',
        docUrl = ''N/A''\<rparr>]) = [''gadget'', ''knob'']"
  by code_simp

subsection \<open>Partitioning\<close>

lemma main_cases:
  "main ps deps lockfile parse ax pv =
     (case getPackagesFromYarnLock lockfile parse deps of
        Inl e \<Rightarrow> Inl e
      | Inr None \<Rightarrow>
          Inr (prioritizedUpdates ps (sortUpdates pv (getDependencyUpdates ax deps)),
               otherUpdates ps (sortUpdates pv (getDependencyUpdates ax deps)))
      | Inr (Some locked) \<Rightarrow>
          Inr (prioritizedUpdates ps (sortUpdates pv (getDependencyUpdates ax locked)),
               otherUpdates ps (sortUpdates pv (getDependencyUpdates ax locked))))"
  by (simp add: main_def Let_def split: sum.split option.split)

lemma main_partitions:
  "main ps deps lockfile parse ax pv = Inr (pr, ot) \<Longrightarrow>
   \<exists>us. pr = prioritizedUpdates ps (sortUpdates pv us) \<and> ot = otherUpdates ps (sortUpdates pv us)"
  unfolding main_cases by (auto split: sum.splits option.splits)

text \<open>
  C5. The two lists \<^verbatim>\<open>main\<close> filters out of a list of records, those whose name
  is among the priority packages and the rest, have the records of the list as their
  union and no record in common; together they hold every record exactly as often as
  the list does; each is a subsequence of the list, so it keeps the list's order, and
  when the list is the sorted one each is in descending order of distance. The lists
  \<^verbatim>\<open>main\<close> returns are these two, for the sorted updates.
\<close>

theorem partition_complete_disjoint:
  "set (prioritizedUpdates ps xs) \<union> set (otherUpdates ps xs) = set xs
   \<and> set (prioritizedUpdates ps xs) \<inter> set (otherUpdates ps xs) = {}
   \<and> mset (prioritizedUpdates ps xs) + mset (otherUpdates ps xs) = mset xs
   \<and> (u \<in> set (prioritizedUpdates ps xs)) = (u \<in> set xs \<and> pkg u \<in> set ps)
   \<and> (u \<in> set (otherUpdates ps xs)) = (u \<in> set xs \<and> pkg u \<notin> set ps)
   \<and> subseq (prioritizedUpdates ps xs) xs
   \<and> subseq (otherUpdates ps xs) xs
   \<and> sorted_wrt (\<lambda>a b. distance pv b \<le> distance pv a) (prioritizedUpdates ps (sortUpdates pv us))
   \<and> sorted_wrt (\<lambda>a b. distance pv b \<le> distance pv a) (otherUpdates ps (sortUpdates pv us))
   \<and> (main ps deps lockfile parse ax pv = Inr (pr, ot) \<longrightarrow>
        (\<exists>vs. pr = prioritizedUpdates ps (sortUpdates pv vs)
            \<and> ot = otherUpdates ps (sortUpdates pv vs)))"
proof -
  have 1: "set (prioritizedUpdates ps xs) \<union> set (otherUpdates ps xs) = set xs"
    by (auto simp: prioritizedUpdates_def otherUpdates_def)
  have 2: "set (prioritizedUpdates ps xs) \<inter> set (otherUpdates ps xs) = {}"
    by (auto simp: prioritizedUpdates_def otherUpdates_def)
  have 3: "mset (prioritizedUpdates ps xs) + mset (otherUpdates ps xs) = mset xs"
    by (simp add: prioritizedUpdates_def otherUpdates_def)
  have 4: "(u \<in> set (prioritizedUpdates ps xs)) = (u \<in> set xs \<and> pkg u \<in> set ps)"
    by (simp add: prioritizedUpdates_def)
  have 5: "(u \<in> set (otherUpdates ps xs)) = (u \<in> set xs \<and> pkg u \<notin> set ps)"
    by (simp add: otherUpdates_def)
  have 6: "subseq (prioritizedUpdates ps xs) xs" "subseq (otherUpdates ps xs) xs"
    by (simp_all add: prioritizedUpdates_def otherUpdates_def)
  have 7: "sorted_wrt (\<lambda>a b. distance pv b \<le> distance pv a) (prioritizedUpdates ps (sortUpdates pv us))"
    "sorted_wrt (\<lambda>a b. distance pv b \<le> distance pv a) (otherUpdates ps (sortUpdates pv us))"
    unfolding prioritizedUpdates_def otherUpdates_def
    by (rule sorted_wrt_filter, rule sortUpdates_descending)+
  show ?thesis
    using 1 2 3 4 5 6 7 main_partitions [of ps deps lockfile parse ax pv pr ot] by blast
qed

theorem partition_complete_disjoint_witness:
  "main [''left-pad''] [(''left-pad'', ''^1.0.0''), (''plain'', ''1.0.0'')] Missing sampleParse
        sampleAxios sampleVersions =
     Inr ([\<lparr>pkg = ''left-pad'', currentVersion = ''1.0.0'', latestVersion = ''1.3.0'',
             docUrl = ''https://left-pad.example''\<rparr>],
          [\<lparr>pkg = ''plain'', currentVersion = ''1.0.0'', latestVersion = ''1.0.5'',
             docUrl = ''https://www.npmjs.com/package/plain?activeTab=versions''\<rparr>])
   \<and> (\<exists>vs. [\<lparr>pkg = ''left-pad'', currentVersion = ''1.0.0'', latestVersion = ''1.3.0'',
             docUrl = ''https://left-pad.example''\<rparr>] =
             prioritizedUpdates [''left-pad''] (sortUpdates sampleVersions vs)
         \<and> [\<lparr>pkg = ''plain'', currentVersion = ''1.0.0'', latestVersion = ''1.0.5'',
             docUrl = ''https://www.npmjs.com/package/plain?activeTab=versions''\<rparr>] =
             otherUpdates [''left-pad''] (sortUpdates sampleVersions vs))"
proof -
  have m: "main [''left-pad''] [(''left-pad'', ''^1.0.0''), (''plain'', ''1.0.0'')] Missing sampleParse
        sampleAxios sampleVersions =
     Inr ([\<lparr>pkg = ''left-pad'', currentVersion = ''1.0.0'', latestVersion = ''1.3.0'',
             docUrl = ''https://left-pad.example''\<rparr>],
          [\<lparr>pkg = ''plain'', currentVersion = ''1.0.0'', latestVersion = ''1.0.5'',
             docUrl = ''https://www.npmjs.com/package/plain?activeTab=versions''\<rparr>])"
    by code_simp
  show ?thesis
    using m partition_complete_disjoint [of "[''left-pad'']" "[]"
        "\<lparr>pkg = ''left-pad'', currentVersion = ''1.0.0'', latestVersion = ''1.3.0'',
             docUrl = ''https://left-pad.example''\<rparr>" sampleVersions "[]"
        "[(''left-pad'', ''^1.0.0''), (''plain'', ''1.0.0'')]" Missing sampleParse sampleAxios
        "[\<lparr>pkg = ''left-pad'', currentVersion = ''1.0.0'', latestVersion = ''1.3.0'',
             docUrl = ''https://left-pad.example''\<rparr>]"
        "[\<lparr>pkg = ''plain'', currentVersion = ''1.0.0'', latestVersion = ''1.0.5'',
             docUrl = ''https://www.npmjs.com/package/plain?activeTab=versions''\<rparr>]"]
    by blast
qed

subsection \<open>Lockfile unavailable\<close>

lemma lockDependencies_empty_lock: "lockDependencies [] deps = []"
proof -
  have "fold (resolveOne []) deps acc = acc" for acc
    by (induction deps arbitrary: acc) (auto simp: resolveOne_def scanLock_def)
  then show ?thesis by (simp add: lockDependencies_def)
qed

text \<open>
  C9. When the lockfile is absent, or present with a content the parser rejects, the
  lockfile resolver returns \<^verbatim>\<open>null\<close> and \<^verbatim>\<open>main\<close> does not end with an exception:
  it returns the updates computed from the declared versions of the manifest. A lockfile
  that parses gives an object instead, the empty object when the lock is empty, and
  \<^verbatim>\<open>main\<close> then computes the updates from that object.
\<close>

theorem lockfile_unavailable_fallback:
  "(lockfile = Missing \<or> (lockfile = Content yarnLock \<and> parse yarnLock = Inl e) \<longrightarrow>
      getPackagesFromYarnLock lockfile parse deps = Inr None
      \<and> main ps deps lockfile parse ax pv =
          Inr (prioritizedUpdates ps (sortUpdates pv (getDependencyUpdates ax deps)),
               otherUpdates ps (sortUpdates pv (getDependencyUpdates ax deps))))
   \<and> (lockfile = Content yarnLock \<and> parse yarnLock = Inr lock \<longrightarrow>
      getPackagesFromYarnLock lockfile parse deps = Inr (Some (lockDependencies lock deps))
      \<and> main ps deps lockfile parse ax pv =
          Inr (prioritizedUpdates ps (sortUpdates pv (getDependencyUpdates ax (lockDependencies lock deps))),
               otherUpdates ps (sortUpdates pv (getDependencyUpdates ax (lockDependencies lock deps)))))
   \<and> lockDependencies [] deps = []"
proof -
  have a: "getPackagesFromYarnLock lockfile parse deps = Inr None"
    if "lockfile = Missing \<or> (lockfile = Content yarnLock \<and> parse yarnLock = Inl e)"
    using that by (auto simp: getPackagesFromYarnLock_def)
  have b: "getPackagesFromYarnLock lockfile parse deps = Inr (Some (lockDependencies lock deps))"
    if "lockfile = Content yarnLock \<and> parse yarnLock = Inr lock"
    using that by (simp add: getPackagesFromYarnLock_def)
  show ?thesis
    using a b lockDependencies_empty_lock [of deps]
    by (auto simp: main_cases)
qed

theorem lockfile_unavailable_fallback_witness:
  "sampleParse ''<<<<<<< HEAD'' = Inl ''Unknown token''
   \<and> getPackagesFromYarnLock (Content ''<<<<<<< HEAD'') sampleParse [(''left-pad'', ''^1.0.0'')] = Inr None
   \<and> main [] [(''left-pad'', ''^1.0.0'')] (Content ''<<<<<<< HEAD'') sampleParse sampleAxios sampleVersions =
       Inr ([], [\<lparr>pkg = ''left-pad'', currentVersion = ''1.0.0'', latestVersion = ''1.3.0'',
                   docUrl = ''https://left-pad.example''\<rparr>])
   \<and> main [] [(''left-pad'', ''^1.0.0'')] Missing sampleParse sampleAxios sampleVersions =
       Inr ([], [\<lparr>pkg = ''left-pad'', currentVersion = ''1.0.0'', latestVersion = ''1.3.0'',
                   docUrl = ''https://left-pad.example''\<rparr>])
   \<and> sampleParse ''# yarn lockfile v1'' = Inr []
   \<and> getPackagesFromYarnLock (Content ''# yarn lockfile v1'') sampleParse [(''left-pad'', ''^1.0.0'')] =
       Inr (Some [])
   \<and> main [] [(''left-pad'', ''^1.0.0'')] (Content ''# yarn lockfile v1'') sampleParse sampleAxios
        sampleVersions = Inr ([], [])"
proof -
  have p: "sampleParse ''<<<<<<< HEAD'' = Inl ''Unknown token''" by code_simp
  have q: "sampleParse ''# yarn lockfile v1'' = Inr []" by code_simp
  have u: "prioritizedUpdates [] (sortUpdates sampleVersions
             (getDependencyUpdates sampleAxios [(''left-pad'', ''^1.0.0'')])) = []"
    by code_simp
  have v: "otherUpdates [] (sortUpdates sampleVersions
             (getDependencyUpdates sampleAxios [(''left-pad'', ''^1.0.0'')])) =
           [\<lparr>pkg = ''left-pad'', currentVersion = ''1.0.0'', latestVersion = ''1.3.0'',
              docUrl = ''https://left-pad.example''\<rparr>]"
    by code_simp
  have w: "prioritizedUpdates [] (sortUpdates sampleVersions (getDependencyUpdates sampleAxios [])) = []"
    "otherUpdates [] (sortUpdates sampleVersions (getDependencyUpdates sampleAxios [])) = []"
    by code_simp+
  show ?thesis
    using p q u v w
      lockfile_unavailable_fallback [of "Content ''<<<<<<< HEAD''" "''<<<<<<< HEAD''" sampleParse
        "''Unknown token''" "[(''left-pad'', ''^1.0.0'')]" "[]" sampleAxios sampleVersions "[]"]
      lockfile_unavailable_fallback [of Missing "[]" sampleParse
        "[]" "[(''left-pad'', ''^1.0.0'')]" "[]" sampleAxios sampleVersions "[]"]
      lockfile_unavailable_fallback [of "Content ''# yarn lockfile v1''" "''# yarn lockfile v1''" sampleParse
        "[]" "[(''left-pad'', ''^1.0.0'')]" "[]" sampleAxios sampleVersions "[]"]
    by simp
qed

subsection \<open>Lockfile resolver\<close>

lemma map_of_obj_set: "map_of (obj_set al k v) = (map_of al)(k \<mapsto> v)"
  by (induction al) auto

lemma nameMatches_snoc:
  "nameMatches (xs @ [x]) p =
     nameMatches xs p @ (if lockedPkg (fst x) = Some p then [x] else [])"
  by (simp add: nameMatches_def)

lemma lastMatch_snoc:
  "lastMatch (xs @ [x]) p =
     (if lockedPkg (fst x) = Some p then Some (version (snd x)) else lastMatch xs p)"
  by (simp add: lastMatch_def nameMatches_snoc)

lemma lastMatch_Nil: "lastMatch [] p = None"
  by (simp add: lastMatch_def nameMatches_def)

lemma scanLock_snoc:
  "scanLock (xs @ [x]) p deps =
     (if lockedPkg (fst x) = Some p then obj_set (scanLock xs p deps) p (version (snd x))
      else scanLock xs p deps)"
  by (cases x) (simp add: scanLock_def)

lemma map_of_scanLock:
  "map_of (scanLock lock p deps) =
     (case lastMatch lock p of
        None \<Rightarrow> map_of deps
      | Some v \<Rightarrow> (map_of deps)(p \<mapsto> v))"
proof (induction lock rule: rev_induct)
  case Nil
  show ?case by (simp add: lastMatch_Nil scanLock_def)
next
  case (snoc x xs)
  show ?case
  proof (cases "lockedPkg (fst x) = Some p")
    case True
    then show ?thesis
      using snoc.IH
      by (cases "lastMatch xs p") (auto simp add: scanLock_snoc lastMatch_snoc map_of_obj_set fun_eq_iff)
  next
    case False
    then show ?thesis
      using snoc.IH by (simp add: scanLock_snoc lastMatch_snoc)
  qed
qed

lemma map_of_resolveOne:
  "map_of (resolveOne lock (q, r) deps) =
     (case lockedVersion lock q r of
        None \<Rightarrow> map_of deps
      | Some v \<Rightarrow> (map_of deps)(q \<mapsto> v))"
  by (simp add: resolveOne_def lockedVersion_def map_of_obj_set map_of_scanLock split: option.split)

lemma map_of_fold_resolveOne:
  "distinct (map fst declared) \<Longrightarrow>
   map_of (fold (resolveOne lock) declared acc) p =
     (case map_of declared p of
        None \<Rightarrow> map_of acc p
      | Some r \<Rightarrow>
          (case lockedVersion lock p r of
             None \<Rightarrow> map_of acc p
           | Some v \<Rightarrow> Some v))"
proof (induction declared arbitrary: acc)
  case Nil
  show ?case by simp
next
  case (Cons d ds)
  obtain q r where d: "d = (q, r)" by (cases d)
  from Cons.prems d have dist: "distinct (map fst ds)" and fresh: "q \<notin> fst ` set ds"
    by simp_all
  have step: "map_of (fold (resolveOne lock) (d # ds) acc) p =
              (case map_of ds p of
                 None \<Rightarrow> map_of (resolveOne lock (q, r) acc) p
               | Some r' \<Rightarrow>
                   (case lockedVersion lock p r' of
                      None \<Rightarrow> map_of (resolveOne lock (q, r) acc) p
                    | Some v \<Rightarrow> Some v))"
    using Cons.IH [OF dist, of "resolveOne lock (q, r) acc"] d by simp
  show ?case
  proof (cases "p = q")
    case True
    with fresh have "map_of ds p = None"
      by (simp add: map_of_eq_None_iff)
    with True d show ?thesis
      unfolding step by (simp add: map_of_resolveOne split: option.split)
  next
    case False
    with d show ?thesis
      unfolding step by (simp add: map_of_resolveOne split: option.split)
  qed
qed

lemma map_of_lockDependencies:
  "distinct (map fst declared) \<Longrightarrow>
   map_of (lockDependencies lock declared) p =
     (case map_of declared p of
        None \<Rightarrow> None
      | Some r \<Rightarrow> lockedVersion lock p r)"
  by (simp add: lockDependencies_def map_of_fold_resolveOne split: option.split)

text \<open>
  C2. For every declared name, the lockfile resolver first tries the exact compound key
  of the name and its declared range; when the lock has no entry under that key it goes
  through all lock entries, takes the first non-empty segment of each key split at the
  at-sign as the name of the entry, and keeps the version of the last entry, in
  iteration order, whose name is the declared one.
\<close>

theorem lockDependencies_exact_then_last:
  assumes "distinct (map fst declared)" and "(p, r) \<in> set declared"
  shows "(map_of lock (p @ ''@'' @ r) = Some entry \<longrightarrow>
            map_of (lockDependencies lock declared) p = Some (version entry))
       \<and> (map_of lock (p @ ''@'' @ r) = None \<longrightarrow>
            map_of (lockDependencies lock declared) p = lastMatch lock p)
       \<and> lastMatch lock p =
            (case rev (filter (\<lambda>e. lockedPkg (fst e) = Some p) lock) of
               [] \<Rightarrow> None
             | e # es \<Rightarrow> Some (version (snd e)))"
proof -
  from assms have "map_of declared p = Some r" by simp
  with assms(1) have "map_of (lockDependencies lock declared) p = lockedVersion lock p r"
    by (simp add: map_of_lockDependencies)
  then show ?thesis
    by (simp add: lockedVersion_def lastMatch_def nameMatches_def)
qed

theorem lockDependencies_exact_then_last_witness:
  "distinct (map fst [(''widget'', ''^1.2.0''), (''@babel/core'', ''^7.0.0'')])
   \<and> map_of sampleLock (''widget'' @ ''@'' @ ''^1.2.0'') = None
   \<and> lastMatch sampleLock ''widget'' = Some ''2.0.1''
   \<and> map_of (lockDependencies sampleLock [(''widget'', ''^1.2.0''), (''@babel/core'', ''^7.0.0'')]) ''widget'' =
       Some ''2.0.1''
   \<and> map_of sampleLock (''@babel/core'' @ ''@'' @ ''^7.0.0'') = Some \<lparr>version = ''7.24.0''\<rparr>
   \<and> map_of (lockDependencies sampleLock [(''widget'', ''^1.2.0''), (''@babel/core'', ''^7.0.0'')])
        ''@babel/core'' = Some ''7.24.0''"
proof -
  have d: "distinct (map fst [(''widget'', ''^1.2.0''), (''@babel/core'', ''^7.0.0'')])"
    by simp
  have w: "(''widget'', ''^1.2.0'') \<in> set [(''widget'', ''^1.2.0''), (''@babel/core'', ''^7.0.0'')]"
    and b: "(''@babel/core'', ''^7.0.0'') \<in> set [(''widget'', ''^1.2.0''), (''@babel/core'', ''^7.0.0'')]"
    by simp_all
  have 1: "map_of sampleLock (''widget'' @ ''@'' @ ''^1.2.0'') = None" by code_simp
  have 2: "lastMatch sampleLock ''widget'' = Some ''2.0.1''" by code_simp
  have 3: "map_of sampleLock (''@babel/core'' @ ''@'' @ ''^7.0.0'') = Some \<lparr>version = ''7.24.0''\<rparr>"
    by code_simp
  show ?thesis
    using d 1 2 3
      lockDependencies_exact_then_last [OF d w, of sampleLock "\<lparr>version = ''7.24.0''\<rparr>"]
      lockDependencies_exact_then_last [OF d b, of sampleLock "\<lparr>version = ''7.24.0''\<rparr>"]
    by simp
qed

text \<open>
  With two entries for \<^verbatim>\<open>widget\<close> and no exact key, the resolver returns the
  version of the second one, not of the first.
\<close>

theorem lockDependencies_first_match_counterexample:
  "map_of sampleLock (''widget'' @ ''@'' @ ''^1.2.0'') = None
   \<and> firstMatch sampleLock ''widget'' = Some ''1.2.5''
   \<and> lockDependencies sampleLock [(''widget'', ''^1.2.0'')] = [(''widget'', ''2.0.1'')]"
  by code_simp

subsection \<open>Lockfile resolver: scoped names\<close>

lemma js_split_nonempty: "js_split d s \<noteq> []"
  by (induction s) (auto split: list.split)

lemma js_split_no_sep: "w \<in> set (js_split d s) \<Longrightarrow> d \<notin> set w"
proof (induction s arbitrary: w)
  case Nil
  then show ?case by simp
next
  case (Cons c cs)
  show ?case
  proof (cases "c = d")
    case True
    with Cons show ?thesis by auto
  next
    case False
    obtain v vs where vs: "js_split d cs = v # vs"
      using js_split_nonempty [of d cs] by (cases "js_split d cs") auto
    with False Cons.prems have "w = c # v \<or> w \<in> set vs" by simp
    then show ?thesis
    proof
      assume "w = c # v"
      moreover have "d \<notin> set v" using Cons.IH [of v] vs by simp
      ultimately show ?thesis using False by auto
    next
      assume "w \<in> set vs"
      then show ?thesis using Cons.IH [of w] vs by simp
    qed
  qed
qed

lemma lockedPkg_no_at: "lockedPkg key = Some w \<Longrightarrow> CHR ''@'' \<notin> set w"
proof -
  assume a: "lockedPkg key = Some w"
  then obtain ws where "filter (\<lambda>w. w \<noteq> []) (js_split (CHR ''@'') key) = w # ws"
    by (auto simp: lockedPkg_def split: list.splits)
  then have "w \<in> set (filter (\<lambda>w. w \<noteq> []) (js_split (CHR ''@'') key))" by simp
  then have "w \<in> set (js_split (CHR ''@'') key)" by simp
  then show ?thesis by (rule js_split_no_sep)
qed

lemma lockedPkg_not_scoped: "lockedPkg key \<noteq> Some (CHR ''@'' # n)"
  using lockedPkg_no_at [of key "CHR ''@'' # n"] by auto

lemma js_split_first: "d \<notin> set n \<Longrightarrow> js_split d (n @ d # r) = n # js_split d r"
  by (induction n) auto

lemma lockedPkg_scoped_key:
  assumes "n \<noteq> []" and "CHR ''@'' \<notin> set n"
  shows "lockedPkg (CHR ''@'' # n @ ''@'' @ r) = Some n"
proof -
  have "js_split (CHR ''@'') (CHR ''@'' # n @ CHR ''@'' # r) = [] # n # js_split (CHR ''@'') r"
    using assms(2) by (simp add: js_split_first)
  then show ?thesis using assms(1) by (simp add: lockedPkg_def)
qed

lemma scanLock_scoped: "scanLock lock (CHR ''@'' # n) deps = deps"
  by (induction lock rule: rev_induct) (simp_all add: scanLock_snoc lockedPkg_not_scoped scanLock_def)

lemma lastMatch_scoped: "lastMatch lock (CHR ''@'' # n) = None"
  by (simp add: lastMatch_def nameMatches_def lockedPkg_not_scoped)

text \<open>
  C10. A declared name that begins with an at-sign is the name of no lock entry: the
  name read off a key never contains an at-sign (the key of a scoped package gives the
  name without the leading one), so the scan changes nothing and the resolver gives
  such a dependency the version of the entry under its exact compound key, or none.
\<close>

theorem scoped_name_exact_key_only:
  "lockedPkg key \<noteq> Some (CHR ''@'' # n)
   \<and> scanLock lock (CHR ''@'' # n) deps = deps
   \<and> (n \<noteq> [] \<and> CHR ''@'' \<notin> set n \<longrightarrow> lockedPkg (CHR ''@'' # n @ ''@'' @ r) = Some n)
   \<and> (distinct (map fst declared) \<and> (CHR ''@'' # n, r) \<in> set declared \<longrightarrow>
        map_of (lockDependencies lock declared) (CHR ''@'' # n) =
          map_option version (map_of lock ((CHR ''@'' # n) @ ''@'' @ r)))"
proof -
  have "map_of (lockDependencies lock declared) (CHR ''@'' # n) =
          map_option version (map_of lock ((CHR ''@'' # n) @ ''@'' @ r))"
    if d: "distinct (map fst declared)" and m: "(CHR ''@'' # n, r) \<in> set declared"
  proof -
    from d m have "map_of declared (CHR ''@'' # n) = Some r" by simp
    with d have "map_of (lockDependencies lock declared) (CHR ''@'' # n) =
                 lockedVersion lock (CHR ''@'' # n) r"
      by (simp add: map_of_lockDependencies)
    then show ?thesis
      by (simp add: lockedVersion_def lastMatch_scoped split: option.split)
  qed
  then show ?thesis
    using lockedPkg_not_scoped [of key n] scanLock_scoped [of lock n deps]
      lockedPkg_scoped_key [of n r]
    by blast
qed

theorem scoped_name_exact_key_only_witness:
  "lockedPkg ''@babel/core@^7.0.0'' = Some ''babel/core''
   \<and> distinct (map fst [(''@babel/core'', ''^7.1.0'')])
   \<and> map_of sampleLock (''@babel/core'' @ ''@'' @ ''^7.1.0'') = None
   \<and> map_of (lockDependencies sampleLock [(''@babel/core'', ''^7.1.0'')]) ''@babel/core'' = None
   \<and> lockDependencies sampleLock [(''@babel/core'', ''^7.1.0'')] = []"
proof -
  have 1: "map_of sampleLock (''@babel/core'' @ ''@'' @ ''^7.1.0'') = None" by code_simp
  have 2: "lockDependencies sampleLock [(''@babel/core'', ''^7.1.0'')] = []" by code_simp
  show ?thesis
    using 1 2
      scoped_name_exact_key_only [where n = "''babel/core''" and r = "''^7.0.0''"
        and declared = "[(''@babel/core'', ''^7.1.0'')]" and lock = sampleLock]
      scoped_name_exact_key_only [where n = "''babel/core''" and r = "''^7.1.0''"
        and declared = "[(''@babel/core'', ''^7.1.0'')]" and lock = sampleLock]
    by simp
qed

end
